theory Spec2Isabelle
  imports Complex_Main "HOL-Library.AList"
begin

section \<open>Tensors, errors and the construction monad\<close>

text \<open>
  The repository defines small language models on top of PyTorch (\<^verbatim>\<open>models.py\<close>) and a
  generic training loop (\<^verbatim>\<open>training.py\<close>).

  Conventions of the embedding.
  \<^item> A float is a \<^typ>\<open>real\<close>: rounding, overflow and not-a-number are outside the model,
    except where the source itself writes them (the \<^verbatim>\<open>float('-inf')\<close> of the causal mask,
    the \<^verbatim>\<open>float("NaN")\<close> of the training loop), which are constructors of their own.
  \<^item> A tensor of shape \<open>(T, D)\<close> is a list of \<open>T\<close> rows of length \<open>D\<close>. Every layer of
    \<^verbatim>\<open>models.py\<close> acts on the last one or two dimensions and maps over the leading batch
    dimension, so a layer is modelled on one element of the batch. The sampler
    \<^verbatim>\<open>generate\<close> indexes the batch dimension itself and is modelled on the whole batch.
  \<^item> Every exception is a value of \<open>error\<close>; a computation that can raise returns
    \<open>error + 'a\<close>.
  \<^item> \<^verbatim>\<open>nn.Dropout\<close> is modelled in inference mode (\<^verbatim>\<open>model.eval()\<close>), where it
    is the identity.
\<close>

datatype error =
  RuntimeError | IndexError | ZeroDivisionError | ValueError | UnboundLocalError | KeyError
  | TypeError

type_synonym vec = "real list"
type_synonym mat = "real list list"

definition ebind :: "error + 'a \<Rightarrow> ('a \<Rightarrow> error + 'b) \<Rightarrow> error + 'b" where
  "ebind m f = (case m of Inl e \<Rightarrow> Inl e | Inr v \<Rightarrow> f v)"

text \<open>Evaluating a list comprehension whose body can raise: the first exception wins.\<close>

fun traverse :: "('a \<Rightarrow> error + 'b) \<Rightarrow> 'a list \<Rightarrow> error + 'b list" where
  "traverse f [] = Inr []"
| "traverse f (x # xs) =
     (case f x of Inl e \<Rightarrow> Inl e
      | Inr y \<Rightarrow> (case traverse f xs of Inl e \<Rightarrow> Inl e | Inr ys \<Rightarrow> Inr (y # ys)))"

definition dot :: "vec \<Rightarrow> vec \<Rightarrow> real" where
  "dot u v = sum_list (map2 (*) u v)"

text \<open>
  Elementwise \<^verbatim>\<open>a + b\<close> of two tensors of the same shape. Wherever the source adds two
  tensors their shapes agree (a residual branch returns the width of its input, the two
  embeddings have the same width), so broadcasting is not modelled.
\<close>

definition tensor_add :: "mat \<Rightarrow> mat \<Rightarrow> mat" where
  "tensor_add a b = map2 (map2 (+)) a b"

text \<open>
  Parameters that PyTorch initialises at random are drawn from a stream of reals, the
  state of the random number generator, which construction threads through:
  a constructor takes the stream and returns the module and the rest of the stream,
  or the exception it raised.
\<close>

type_synonym rng = "nat \<Rightarrow> real"
type_synonym 'a ctor = "rng \<Rightarrow> error + ('a \<times> rng)"

definition cbind :: "'a ctor \<Rightarrow> ('a \<Rightarrow> 'b ctor) \<Rightarrow> 'b ctor" where
  "cbind c f g = (case c g of Inl e \<Rightarrow> Inl e | Inr (v, g') \<Rightarrow> f v g')"

definition creturn :: "'a \<Rightarrow> 'a ctor" where
  "creturn v g = Inr (v, g)"

definition craise :: "error \<Rightarrow> 'a ctor" where
  "craise e g = Inl e"

text \<open>\<^verbatim>\<open>[c for _ in range(n)]\<close>: the constructor runs \<open>n\<close> times (never for \<open>n \<le> 0\<close>).\<close>

fun crepeat :: "nat \<Rightarrow> 'a ctor \<Rightarrow> 'a list ctor" where
  "crepeat 0 c = creturn []"
| "crepeat (Suc n) c = cbind c (\<lambda>v. cbind (crepeat n c) (\<lambda>vs. creturn (v # vs)))"

text \<open>A fresh tensor of the given shape; a negative dimension raises.\<close>

definition draw_vec :: "nat \<Rightarrow> rng \<Rightarrow> vec \<times> rng" where
  "draw_vec n g = (map g [0..<n], \<lambda>k. g (k + n))"

definition draw_mat :: "nat \<Rightarrow> nat \<Rightarrow> rng \<Rightarrow> mat \<times> rng" where
  "draw_mat r c g = (map (\<lambda>i. map (\<lambda>j. g (i * c + j)) [0..<c]) [0..<r], \<lambda>k. g (k + r * c))"

definition random_tensor :: "int \<Rightarrow> int \<Rightarrow> mat ctor" where
  "random_tensor r c g =
     (if r < 0 \<or> c < 0 then Inl RuntimeError else Inr (draw_mat (nat r) (nat c) g))"

section \<open>Layers\<close>

subsection \<open>Dropout\<close>

text \<open>
  \<^verbatim>\<open>nn.Dropout(p)\<close> raises \<^verbatim>\<open>ValueError\<close> unless \<open>0 \<le> p \<le> 1\<close>. In inference mode its
  forward pass returns its input.
\<close>

datatype Dropout = Dropout real

definition Dropout_init :: "real \<Rightarrow> Dropout ctor" where
  "Dropout_init p = (if p < 0 \<or> 1 < p then craise ValueError else creturn (Dropout p))"

definition Dropout_forward :: "Dropout \<Rightarrow> mat \<Rightarrow> mat" where
  "Dropout_forward d x = x"

subsection \<open>Linear and Embedding\<close>

text \<open>
  \<^verbatim>\<open>nn.Linear(in_features, out_features, bias)\<close>: the weight has shape
  \<open>(out_features, in_features)\<close>; the forward pass is \<open>x W\<^sup>T + b\<close> on the last dimension
  and raises when that dimension is not \<open>in_features\<close>.
\<close>

record Linear =
  in_features :: nat
  out_features :: nat
  lin_weight :: mat
  lin_bias :: "vec option"

definition Linear_init :: "int \<Rightarrow> int \<Rightarrow> bool \<Rightarrow> Linear ctor" where
  "Linear_init n_in n_out with_bias =
     cbind (random_tensor n_out n_in) (\<lambda>w.
     cbind (\<lambda>g. if with_bias then (case draw_vec (nat n_out) g of (b, g') \<Rightarrow> Inr (Some b, g'))
                 else Inr (None, g)) (\<lambda>b.
     creturn \<lparr>in_features = nat n_in, out_features = nat n_out, lin_weight = w, lin_bias = b\<rparr>))"

definition Linear_row :: "Linear \<Rightarrow> vec \<Rightarrow> vec" where
  "Linear_row l r =
     (let y = map (\<lambda>w. dot r w) (lin_weight l)
      in case lin_bias l of None \<Rightarrow> y | Some b \<Rightarrow> map2 (+) y b)"

definition Linear_forward :: "Linear \<Rightarrow> mat \<Rightarrow> error + mat" where
  "Linear_forward l x =
     (if list_all (\<lambda>r. length r = in_features l) x then Inr (map (Linear_row l) x)
      else Inl RuntimeError)"

text \<open>
  \<^verbatim>\<open>nn.Embedding(num_embeddings, dim)\<close> is a table of \<open>num_embeddings\<close> rows; looking up
  an index outside \<open>[0, num_embeddings)\<close> raises \<^verbatim>\<open>IndexError\<close> (negative indices do not
  wrap).
\<close>

definition Embedding_init :: "int \<Rightarrow> int \<Rightarrow> mat ctor" where
  "Embedding_init num_embeddings embedding_dim = random_tensor num_embeddings embedding_dim"

definition Embedding_lookup :: "mat \<Rightarrow> int \<Rightarrow> error + vec" where
  "Embedding_lookup table i =
     (if 0 \<le> i \<and> i < int (length table) then Inr (table ! nat i) else Inl IndexError)"

definition Embedding_forward :: "mat \<Rightarrow> int list \<Rightarrow> error + mat" where
  "Embedding_forward table ids = traverse (Embedding_lookup table) ids"

text \<open>\<^verbatim>\<open>torch.arange(T)\<close>\<close>

definition arange :: "nat \<Rightarrow> int list" where
  "arange T = map int [0..<T]"

subsection \<open>Layer normalisation\<close>

text \<open>
  \<^verbatim>\<open>F.layer_norm(input, normalized_shape, weight, bias, eps)\<close> over a one-dimensional
  \<^verbatim>\<open>normalized_shape\<close>: each row is shifted by its mean, divided by the square root of its
  (biased) variance plus \<open>eps\<close>, scaled by the weight and, when there is a bias, shifted by
  it. It raises when the last dimension of the input, the weight or the bias differs from
  \<^verbatim>\<open>normalized_shape\<close>.
\<close>

definition layer_norm_row :: "vec \<Rightarrow> vec \<Rightarrow> vec option \<Rightarrow> real \<Rightarrow> vec" where
  "layer_norm_row x w b eps =
     (let n = real (length x);
          mu = sum_list x / n;
          var = sum_list (map (\<lambda>v. (v - mu)\<^sup>2) x) / n;
          y = map2 (*) (map (\<lambda>v. (v - mu) / sqrt (var + eps)) x) w
      in case b of None \<Rightarrow> y | Some c \<Rightarrow> map2 (+) y c)"

definition layer_norm :: "mat \<Rightarrow> nat \<Rightarrow> vec \<Rightarrow> vec option \<Rightarrow> real \<Rightarrow> error + mat" where
  "layer_norm input normalized_shape w b eps =
     (if list_all (\<lambda>r. length r = normalized_shape) input \<and> length w = normalized_shape
         \<and> (case b of None \<Rightarrow> True | Some c \<Rightarrow> length c = normalized_shape)
      then Inr (map (\<lambda>r. layer_norm_row r w b eps) input)
      else Inl RuntimeError)"

text \<open>
  The repository's own \<^verbatim>\<open>LayerNorm(ndim, bias)\<close>: the weight starts as ones, the bias as
  zeros, or is absent (\<^verbatim>\<open>None\<close>) when \<^verbatim>\<open>bias\<close> is false.
\<close>

record LayerNorm =
  ln_weight :: vec
  ln_bias :: "vec option"

definition LayerNorm_init :: "int \<Rightarrow> bool \<Rightarrow> LayerNorm ctor" where
  "LayerNorm_init ndim with_bias =
     (if ndim < 0 then craise RuntimeError
      else creturn \<lparr>ln_weight = replicate (nat ndim) 1,
                    ln_bias = (if with_bias then Some (replicate (nat ndim) 0) else None)\<rparr>)"

definition LayerNorm_forward :: "LayerNorm \<Rightarrow> mat \<Rightarrow> error + mat" where
  "LayerNorm_forward m input =
     layer_norm input (length (ln_weight m)) (ln_weight m) (ln_bias m) (1 / 100000)"

text \<open>
  PyTorch's \<^verbatim>\<open>nn.LayerNorm(n)\<close>: weight and bias are both parameters, \<open>eps\<close> is \<open>1e-5\<close>,
  the forward pass is the same \<^verbatim>\<open>F.layer_norm\<close>.
\<close>

record nn_LayerNorm =
  nln_weight :: vec
  nln_bias :: vec

definition nn_LayerNorm_init :: "int \<Rightarrow> nn_LayerNorm ctor" where
  "nn_LayerNorm_init n =
     (if n < 0 then craise RuntimeError
      else creturn \<lparr>nln_weight = replicate (nat n) 1, nln_bias = replicate (nat n) 0\<rparr>)"

definition nn_LayerNorm_forward :: "nn_LayerNorm \<Rightarrow> mat \<Rightarrow> error + mat" where
  "nn_LayerNorm_forward m input =
     layer_norm input (length (nln_weight m)) (nln_weight m) (Some (nln_bias m)) (1 / 100000)"

subsection \<open>One head of causal self-attention\<close>

text \<open>
  A score is a real or \<^verbatim>\<open>float('-inf')\<close>. \<^verbatim>\<open>F.softmax\<close> exponentiates (\<open>exp (-inf) = 0\<close>)
  and divides by the sum of the row.
\<close>

datatype score = MinusInf | Fin real

definition exp_score :: "score \<Rightarrow> real" where
  "exp_score s = (case s of MinusInf \<Rightarrow> 0 | Fin v \<Rightarrow> exp v)"

definition softmax :: "score list \<Rightarrow> vec" where
  "softmax xs = (let es = map exp_score xs; z = sum_list es in map (\<lambda>e. e / z) es)"

text \<open>\<^verbatim>\<open>torch.tril(torch.ones(n, n))\<close>: ones on and below the diagonal.\<close>

definition tril_ones :: "nat \<Rightarrow> mat" where
  "tril_ones n = map (\<lambda>i. map (\<lambda>j. if j \<le> i then 1 else 0) [0..<n]) [0..<n]"

text \<open>
  \<^verbatim>\<open>wei.masked_fill(mask, float('-inf'))\<close> for a square \<open>T \<times> T\<close> tensor \<open>wei\<close> and a square
  mask: the mask has the shape of \<open>wei\<close>, or it is \<open>1 \<times> 1\<close> and is broadcast, or the call
  raises.
\<close>

definition masked_fill :: "mat \<Rightarrow> bool list list \<Rightarrow> error + score list list" where
  "masked_fill wei msk =
     (if length msk = length wei \<and> list_all (\<lambda>r. length r = length wei) msk
      then Inr (map2 (map2 (\<lambda>v m. if m then MinusInf else Fin v)) wei msk)
      else if length msk = 1 \<and> list_all (\<lambda>r. length r = 1) msk
      then Inr (map (map (\<lambda>v. if msk ! 0 ! 0 then MinusInf else Fin v)) wei)
      else Inl RuntimeError)"

text \<open>\<^verbatim>\<open>q @ k.transpose(-2, -1)\<close> and \<^verbatim>\<open>a @ b\<close>.\<close>

definition matmul_nt :: "mat \<Rightarrow> mat \<Rightarrow> mat" where
  "matmul_nt q k = map (\<lambda>qi. map (\<lambda>kj. dot qi kj) k) q"

definition matmul :: "mat \<Rightarrow> mat \<Rightarrow> mat" where
  "matmul a b = matmul_nt a (transpose b)"

record Head =
  h_key :: Linear
  h_query :: Linear
  h_value :: Linear
  h_tril :: mat
  h_dropout :: Dropout

definition Head_init :: "int \<Rightarrow> int \<Rightarrow> int \<Rightarrow> real \<Rightarrow> Head ctor" where
  "Head_init head_size n_embd block_size dropout =
     cbind (Linear_init n_embd head_size False) (\<lambda>k.
     cbind (Linear_init n_embd head_size False) (\<lambda>q.
     cbind (Linear_init n_embd head_size False) (\<lambda>v.
     cbind (if block_size < 0 then craise RuntimeError
            else creturn (tril_ones (nat block_size))) (\<lambda>tril.
     cbind (Dropout_init dropout) (\<lambda>d.
     creturn \<lparr>h_key = k, h_query = q, h_value = v, h_tril = tril, h_dropout = d\<rparr>)))))"

text \<open>
  The attention weights \<^verbatim>\<open>wei\<close> of \<^verbatim>\<open>Head.forward\<close>, after the softmax and the dropout.
  \<^verbatim>\<open>k.shape[-1] ** -0.5\<close> is the Python power of an \<^verbatim>\<open>int\<close>, which raises
  \<^verbatim>\<open>ZeroDivisionError\<close> for a head of size 0.
\<close>

definition Head_weights :: "Head \<Rightarrow> mat \<Rightarrow> error + mat" where
  "Head_weights h x =
     (let T = length x in
      ebind (Linear_forward (h_key h) x) (\<lambda>k.
      ebind (Linear_forward (h_query h) x) (\<lambda>q.
      if out_features (h_key h) = 0 then Inl ZeroDivisionError
      else
        let wei = map (map (\<lambda>s. s * (1 / sqrt (real (out_features (h_key h))))))
                    (matmul_nt q k)
        in ebind (masked_fill wei (map (map (\<lambda>m. m = 0)) (map (take T) (take T (h_tril h)))))
             (\<lambda>wei. Inr (Dropout_forward (h_dropout h) (map softmax wei))))))"

definition Head_forward :: "Head \<Rightarrow> mat \<Rightarrow> error + mat" where
  "Head_forward h x =
     ebind (Head_weights h x) (\<lambda>wei.
     ebind (Linear_forward (h_value h) x) (\<lambda>v.
     Inr (matmul wei v)))"

subsection \<open>Multi-head attention\<close>

text \<open>\<^verbatim>\<open>torch.cat(outs, dim=-1)\<close>; an empty list of tensors raises.\<close>

fun cat_last :: "mat list \<Rightarrow> error + mat" where
  "cat_last [] = Inl RuntimeError"
| "cat_last [m] = Inr m"
| "cat_last (m # ms) = ebind (cat_last ms) (\<lambda>r. Inr (map2 (@) m r))"

record MultiHeadAttention =
  mha_heads :: "Head list"
  mha_proj :: Linear
  mha_dropout :: Dropout

definition MultiHeadAttention_init ::
  "int \<Rightarrow> int \<Rightarrow> int \<Rightarrow> int \<Rightarrow> real \<Rightarrow> MultiHeadAttention ctor" where
  "MultiHeadAttention_init num_heads head_size n_embd block_size dropout =
     cbind (crepeat (nat num_heads) (Head_init head_size n_embd block_size dropout)) (\<lambda>hs.
     cbind (Linear_init n_embd n_embd True) (\<lambda>proj.
     cbind (Dropout_init dropout) (\<lambda>d.
     creturn \<lparr>mha_heads = hs, mha_proj = proj, mha_dropout = d\<rparr>)))"

definition MultiHeadAttention_forward :: "MultiHeadAttention \<Rightarrow> mat \<Rightarrow> error + mat" where
  "MultiHeadAttention_forward m x =
     ebind (traverse (\<lambda>h. Head_forward h x) (mha_heads m)) (\<lambda>outs.
     ebind (cat_last outs) (\<lambda>out.
     ebind (Linear_forward (mha_proj m) out) (\<lambda>out.
     Inr (Dropout_forward (mha_dropout m) out))))"

subsection \<open>Feed-forward networks\<close>

text \<open>
  \<^verbatim>\<open>nn.Sequential(Linear(n, 4n), act, Linear(4n, n), Dropout)\<close>, with \<^verbatim>\<open>nn.ReLU\<close> in
  \<^verbatim>\<open>FeedFoward\<close> and \<^verbatim>\<open>nn.GELU\<close> in \<^verbatim>\<open>FeedFowardGPT2\<close>. The fields are the positions
  of the parametrised layers in the sequence. GELU is \<open>x \<Phi>(x)\<close> with \<open>\<Phi>\<close> the standard normal
  distribution function, written with the power series of the error function.
\<close>

definition relu :: "real \<Rightarrow> real" where
  "relu v = max 0 v"

definition erf :: "real \<Rightarrow> real" where
  "erf v = 2 / sqrt pi * (\<Sum>n. (- 1) ^ n * v ^ (2 * n + 1) / (fact n * real (2 * n + 1)))"

definition gelu :: "real \<Rightarrow> real" where
  "gelu v = v / 2 * (1 + erf (v / sqrt 2))"

record FeedFoward =
  net_0 :: Linear
  net_2 :: Linear
  net_3 :: Dropout

definition FeedFoward_init :: "int \<Rightarrow> real \<Rightarrow> FeedFoward ctor" where
  "FeedFoward_init n_embd dropout =
     cbind (Linear_init n_embd (4 * n_embd) True) (\<lambda>l0.
     cbind (Linear_init (4 * n_embd) n_embd True) (\<lambda>l2.
     cbind (Dropout_init dropout) (\<lambda>d.
     creturn \<lparr>net_0 = l0, net_2 = l2, net_3 = d\<rparr>)))"

definition FeedFoward_forward :: "FeedFoward \<Rightarrow> mat \<Rightarrow> error + mat" where
  "FeedFoward_forward m x =
     ebind (Linear_forward (net_0 m) x) (\<lambda>h.
     ebind (Linear_forward (net_2 m) (map (map relu) h)) (\<lambda>y.
     Inr (Dropout_forward (net_3 m) y)))"

definition FeedFowardGPT2_init :: "int \<Rightarrow> real \<Rightarrow> FeedFoward ctor" where
  "FeedFowardGPT2_init n_embd dropout =
     cbind (Linear_init n_embd (4 * n_embd) True) (\<lambda>l0.
     cbind (Linear_init (4 * n_embd) n_embd True) (\<lambda>l2.
     cbind (Dropout_init dropout) (\<lambda>d.
     creturn \<lparr>net_0 = l0, net_2 = l2, net_3 = d\<rparr>)))"

definition FeedFowardGPT2_forward :: "FeedFoward \<Rightarrow> mat \<Rightarrow> error + mat" where
  "FeedFowardGPT2_forward m x =
     ebind (Linear_forward (net_0 m) x) (\<lambda>h.
     ebind (Linear_forward (net_2 m) (map (map gelu) h)) (\<lambda>y.
     Inr (Dropout_forward (net_3 m) y)))"

section \<open>Transformer blocks\<close>

text \<open>
  The three block classes. Each constructor computes \<^verbatim>\<open>head_size = n_embd // n_head\<close>
  (Python's floor division, which raises \<^verbatim>\<open>ZeroDivisionError\<close> for \<open>n_head = 0\<close>) and
  builds its sub-layers in the order of the source.
\<close>

record Block =
  b_sa :: MultiHeadAttention
  b_ffwd :: FeedFoward
  b_ln1 :: nn_LayerNorm
  b_ln2 :: nn_LayerNorm

definition Block_init :: "int \<Rightarrow> int \<Rightarrow> int \<Rightarrow> real \<Rightarrow> Block ctor" where
  "Block_init n_embd n_head block_size dropout =
     (if n_head = 0 then craise ZeroDivisionError
      else
        let head_size = n_embd div n_head in
        cbind (MultiHeadAttention_init n_head head_size n_embd block_size dropout) (\<lambda>sa.
        cbind (FeedFoward_init n_embd dropout) (\<lambda>ffwd.
        cbind (nn_LayerNorm_init n_embd) (\<lambda>ln1.
        cbind (nn_LayerNorm_init n_embd) (\<lambda>ln2.
        creturn \<lparr>b_sa = sa, b_ffwd = ffwd, b_ln1 = ln1, b_ln2 = ln2\<rparr>)))))"

definition Block_forward :: "Block \<Rightarrow> mat \<Rightarrow> error + mat" where
  "Block_forward b x =
     ebind (nn_LayerNorm_forward (b_ln1 b) x) (\<lambda>n1.
     ebind (MultiHeadAttention_forward (b_sa b) n1) (\<lambda>a.
     let x = tensor_add x a in
     ebind (nn_LayerNorm_forward (b_ln2 b) x) (\<lambda>n2.
     ebind (FeedFoward_forward (b_ffwd b) n2) (\<lambda>f.
     let x = tensor_add x f in
     Inr x))))"

record BlockGPT1 =
  b1_multi_head :: MultiHeadAttention
  b1_ffwd :: FeedFoward
  b1_ln1 :: nn_LayerNorm
  b1_ln2 :: nn_LayerNorm

definition BlockGPT1_init :: "int \<Rightarrow> int \<Rightarrow> int \<Rightarrow> real \<Rightarrow> BlockGPT1 ctor" where
  "BlockGPT1_init n_embd n_head block_size dropout =
     (if n_head = 0 then craise ZeroDivisionError
      else
        let head_size = n_embd div n_head in
        cbind (MultiHeadAttention_init n_head head_size n_embd block_size dropout) (\<lambda>mh.
        cbind (FeedFoward_init n_embd dropout) (\<lambda>ffwd.
        cbind (nn_LayerNorm_init n_embd) (\<lambda>ln1.
        cbind (nn_LayerNorm_init n_embd) (\<lambda>ln2.
        creturn \<lparr>b1_multi_head = mh, b1_ffwd = ffwd, b1_ln1 = ln1, b1_ln2 = ln2\<rparr>)))))"

definition BlockGPT1_forward :: "BlockGPT1 \<Rightarrow> mat \<Rightarrow> error + mat" where
  "BlockGPT1_forward b x =
     ebind (MultiHeadAttention_forward (b1_multi_head b) x) (\<lambda>a.
     let x = tensor_add a x in
     ebind (nn_LayerNorm_forward (b1_ln1 b) x) (\<lambda>x.
     ebind (FeedFoward_forward (b1_ffwd b) x) (\<lambda>f.
     let x = tensor_add f x in
     ebind (nn_LayerNorm_forward (b1_ln2 b) x) (\<lambda>x.
     Inr x))))"

record BlockGPT2 =
  b2_multi_head :: MultiHeadAttention
  b2_ffwd :: FeedFoward
  b2_ln1 :: LayerNorm
  b2_ln2 :: LayerNorm

definition BlockGPT2_init :: "int \<Rightarrow> int \<Rightarrow> int \<Rightarrow> bool \<Rightarrow> real \<Rightarrow> BlockGPT2 ctor" where
  "BlockGPT2_init n_embd n_head block_size bias dropout =
     (if n_head = 0 then craise ZeroDivisionError
      else
        let head_size = n_embd div n_head in
        cbind (MultiHeadAttention_init n_head head_size n_embd block_size dropout) (\<lambda>mh.
        cbind (FeedFowardGPT2_init n_embd dropout) (\<lambda>ffwd.
        cbind (LayerNorm_init n_embd bias) (\<lambda>ln1.
        cbind (LayerNorm_init n_embd bias) (\<lambda>ln2.
        creturn \<lparr>b2_multi_head = mh, b2_ffwd = ffwd, b2_ln1 = ln1, b2_ln2 = ln2\<rparr>)))))"

definition BlockGPT2_forward :: "BlockGPT2 \<Rightarrow> mat \<Rightarrow> error + mat" where
  "BlockGPT2_forward b x =
     ebind (LayerNorm_forward (b2_ln1 b) x) (\<lambda>n1.
     ebind (MultiHeadAttention_forward (b2_multi_head b) n1) (\<lambda>a.
     let x = tensor_add x a in
     ebind (LayerNorm_forward (b2_ln2 b) x) (\<lambda>n2.
     ebind (FeedFowardGPT2_forward (b2_ffwd b) n2) (\<lambda>f.
     let x = tensor_add x f in
     Inr x))))"

section \<open>Decoder stacks\<close>

text \<open>\<^verbatim>\<open>nn.Sequential(*blocks)\<close>: the blocks run in order; with no block it is the identity.\<close>

fun Sequential_forward :: "('m \<Rightarrow> mat \<Rightarrow> error + mat) \<Rightarrow> 'm list \<Rightarrow> mat \<Rightarrow> error + mat" where
  "Sequential_forward f [] x = Inr x"
| "Sequential_forward f (b # bs) x = ebind (f b x) (Sequential_forward f bs)"

text \<open>
  \<^verbatim>\<open>BigramLanguageModel\<close>: one embedding table of shape \<open>(vocab_size, vocab_size)\<close>;
  the logits of a token are its row.
\<close>

definition BigramLanguageModel_init :: "int \<Rightarrow> mat ctor" where
  "BigramLanguageModel_init vocab_size = Embedding_init vocab_size vocab_size"

definition BigramLanguageModel_forward :: "mat \<Rightarrow> int list \<Rightarrow> error + mat" where
  "BigramLanguageModel_forward token_embedding_table idx =
     Embedding_forward token_embedding_table idx"

record simpleGPT =
  sg_token_embedding_table :: mat
  sg_position_embedding_table :: mat
  sg_blocks :: "Block list"
  sg_ln_f :: nn_LayerNorm
  sg_lm_head :: Linear

definition simpleGPT_init :: "int \<Rightarrow> int \<Rightarrow> int \<Rightarrow> int \<Rightarrow> int \<Rightarrow> real \<Rightarrow> simpleGPT ctor" where
  "simpleGPT_init vocab_size n_embd num_heads block_size n_layer dropout =
     cbind (Embedding_init vocab_size n_embd) (\<lambda>tok.
     cbind (Embedding_init block_size n_embd) (\<lambda>pos.
     cbind (crepeat (nat n_layer) (Block_init n_embd num_heads block_size dropout)) (\<lambda>blocks.
     cbind (nn_LayerNorm_init n_embd) (\<lambda>ln_f.
     cbind (Linear_init n_embd vocab_size True) (\<lambda>lm_head.
     creturn \<lparr>sg_token_embedding_table = tok, sg_position_embedding_table = pos,
               sg_blocks = blocks, sg_ln_f = ln_f, sg_lm_head = lm_head\<rparr>)))))"

definition simpleGPT_forward :: "simpleGPT \<Rightarrow> int list \<Rightarrow> error + mat" where
  "simpleGPT_forward m idx =
     (let T = length idx in
      ebind (Embedding_forward (sg_token_embedding_table m) idx) (\<lambda>tok_emb.
      ebind (Embedding_forward (sg_position_embedding_table m) (arange T)) (\<lambda>positinal_emb.
      let x = tensor_add tok_emb positinal_emb in
      ebind (Sequential_forward Block_forward (sg_blocks m) x) (\<lambda>x.
      Linear_forward (sg_lm_head m) x))))"

record Config =
  vocab_size :: int
  dim_embeddings :: int
  dim_context :: int
  num_heads :: int
  n_layer :: int
  dropout :: real
  bias :: bool

record GPT1 =
  g1_token_embedding_table :: mat
  g1_position_embedding_table :: mat
  g1_blocks :: "BlockGPT1 list"
  g1_lm_head :: Linear

definition GPT1_init :: "Config \<Rightarrow> GPT1 ctor" where
  "GPT1_init config =
     cbind (Embedding_init (vocab_size config) (dim_embeddings config)) (\<lambda>tok.
     cbind (Embedding_init (dim_context config) (dim_embeddings config)) (\<lambda>pos.
     cbind (crepeat (nat (n_layer config))
              (BlockGPT1_init (dim_embeddings config) (num_heads config) (dim_context config)
                 (dropout config))) (\<lambda>blocks.
     cbind (Linear_init (dim_embeddings config) (vocab_size config) True) (\<lambda>lm_head.
     creturn \<lparr>g1_token_embedding_table = tok, g1_position_embedding_table = pos,
               g1_blocks = blocks, g1_lm_head = lm_head\<rparr>))))"

definition GPT1_forward :: "GPT1 \<Rightarrow> int list \<Rightarrow> error + mat" where
  "GPT1_forward m idx =
     (let T = length idx in
      ebind (Embedding_forward (g1_token_embedding_table m) idx) (\<lambda>embedding_token.
      ebind (Embedding_forward (g1_position_embedding_table m) (arange T)) (\<lambda>embedding_position.
      let x = tensor_add embedding_token embedding_position in
      ebind (Sequential_forward BlockGPT1_forward (g1_blocks m) x) (\<lambda>x.
      Linear_forward (g1_lm_head m) x))))"

record GPT2 =
  g2_token_embedding_table :: mat
  g2_position_embedding_table :: mat
  g2_drop :: Dropout
  g2_blocks :: "BlockGPT2 list"
  g2_lm_head :: Linear

definition GPT2_init :: "Config \<Rightarrow> GPT2 ctor" where
  "GPT2_init config =
     cbind (Embedding_init (vocab_size config) (dim_embeddings config)) (\<lambda>tok.
     cbind (Embedding_init (dim_context config) (dim_embeddings config)) (\<lambda>pos.
     cbind (Dropout_init (dropout config)) (\<lambda>drop.
     cbind (crepeat (nat (n_layer config))
              (BlockGPT2_init (dim_embeddings config) (num_heads config) (dim_context config)
                 (bias config) (dropout config))) (\<lambda>blocks.
     cbind (Linear_init (dim_embeddings config) (vocab_size config) True) (\<lambda>lm_head.
     creturn \<lparr>g2_token_embedding_table = tok, g2_position_embedding_table = pos,
               g2_drop = drop, g2_blocks = blocks, g2_lm_head = lm_head\<rparr>)))))"



section \<open>The autoregressive sampler\<close>


definition last_tokens :: "int \<Rightarrow> 'a list \<Rightarrow> 'a list" where
  "last_tokens k row = (if 0 < k then drop (length row - nat k) row else drop (nat (- k)) row)"

definition idx_cond_of :: "int option \<Rightarrow> int list list \<Rightarrow> int list list" where
  "idx_cond_of block_size idx =
     (case block_size of None \<Rightarrow> idx | Some k \<Rightarrow> map (last_tokens k) idx)"









section \<open>The training loop\<close>

text \<open>
  \<^verbatim>\<open>training.py\<close>. The model, the loss function, the optimizer and the data are black
  boxes of the loop:
  \<^item> \<open>model\<close> is the state of the model (its parameters) and \<open>model_training\<close> its
    \<^verbatim>\<open>training\<close> flag; \<open>model_call s training x\<close> is \<^verbatim>\<open>config.model(x)\<close>, a tensor of
    shape \<open>(B, C)\<close>;
  \<^item> \<open>loss_func y_hat y\<close> is the value \<^verbatim>\<open>loss.item()\<close>;
  \<^item> \<open>optimizer_step s x y\<close> is the state after \<^verbatim>\<open>loss.backward()\<close>,
    \<^verbatim>\<open>optimizer.step()\<close> and \<^verbatim>\<open>optimizer.zero_grad()\<close>;
  \<^item> a loader is the list of its batches \<open>(x, y)\<close>, with \<open>y\<close> the labels of the batch; the
    validation loader may be \<^verbatim>\<open>None\<close>;
  \<^item> \<open>score_funcs\<close> is the dictionary of the named scoring functions, in insertion order
    (the names of a dictionary are distinct); a scoring function returns a float, which may
    be not-a-number, or raises (\<open>None\<close>);
  \<^item> \<open>save_call s x\<close> is \<^verbatim>\<open>torch.save\<close> followed by \<^verbatim>\<open>torch.onnx.export\<close>, returning
    the exception it raised, if any.
  The elapsed time of an epoch is an input: \<open>clock prefix e\<close> is \<^verbatim>\<open>end - start\<close> of the
  pass with that prefix in epoch \<open>e\<close>.
\<close>

datatype num = Num real | NaN

datatype y_pred = Classes "nat list" | Raw mat

type_synonym results = "(string \<times> num list) list"

record ('s, 'x) TrainingConfig =
  model :: 's
  model_training :: bool
  model_call :: "'s \<Rightarrow> bool \<Rightarrow> 'x \<Rightarrow> mat"
  loss_func :: "mat \<Rightarrow> vec \<Rightarrow> real"
  optimizer_step :: "'s \<Rightarrow> 'x \<Rightarrow> vec \<Rightarrow> 's"
  training_loader :: "('x \<times> vec) list"
  validation_loader :: "('x \<times> vec) list option"
  epochs :: int
  save_model :: bool
  save_call :: "'s \<Rightarrow> 'x \<Rightarrow> error option"
  score_funcs :: "(string \<times> (vec \<Rightarrow> y_pred \<Rightarrow> num option)) list"

text \<open>\<^verbatim>\<open>np.argmax\<close>: the first index of the maximum.\<close>

fun argmax_from :: "nat \<Rightarrow> real \<Rightarrow> nat \<Rightarrow> real list \<Rightarrow> nat" where
  "argmax_from bi bv i [] = bi"
| "argmax_from bi bv i (v # vs) =
     (if bv < v then argmax_from i v (Suc i) vs else argmax_from bi bv (Suc i) vs)"

definition argmax :: "real list \<Rightarrow> nat" where
  "argmax xs = (case xs of [] \<Rightarrow> 0 | v # vs \<Rightarrow> argmax_from 0 v 1 vs)"

text \<open>
  \<^verbatim>\<open>np.asarray(y_pred)\<close>, reduced to class labels when it has two dimensions and more
  than one column.
\<close>

definition to_y_pred :: "mat \<Rightarrow> y_pred" where
  "to_y_pred rows =
     (case rows of [] \<Rightarrow> Raw []
      | r # _ \<Rightarrow> if 1 < length r then Classes (map argmax rows) else Raw rows)"

text \<open>\<^verbatim>\<open>np.mean\<close> of the empty list is not-a-number.\<close>

definition np_mean :: "real list \<Rightarrow> num" where
  "np_mean xs = (if xs = [] then NaN else Num (sum_list xs / real (length xs)))"

text \<open>\<^verbatim>\<open>results[key].append(v)\<close> raises \<^verbatim>\<open>KeyError\<close> for a key that is not in the dictionary.\<close>

definition results_append :: "string \<Rightarrow> num \<Rightarrow> results \<Rightarrow> error + results" where
  "results_append key v results =
     (case map_of results key of None \<Rightarrow> Inl KeyError
      | Some col \<Rightarrow> Inr (AList.update key (col @ [v]) results))"

text \<open>The body of the loop over the batches of one pass.\<close>

definition batch_step ::
  "('s, 'x) TrainingConfig \<Rightarrow> 's \<times> real list \<times> vec \<times> mat \<times> 'x option \<Rightarrow> 'x \<times> vec \<Rightarrow>
   's \<times> real list \<times> vec \<times> mat \<times> 'x option" where
  "batch_step config st b =
     (case st of (s, running_loss, y_true, y_pred, x_last) \<Rightarrow>
      case b of (x, y) \<Rightarrow>
        let y_hat = model_call config s (model_training config) x;
            loss = loss_func config y_hat y;
            s = (if model_training config then optimizer_step config s x y else s);
            running_loss = running_loss @ [loss]
        in if 0 < length (score_funcs config)
           then (s, running_loss, y_true @ y, y_pred @ y_hat, Some x)
           else (s, running_loss, y_true, y_pred, Some x))"

text \<open>
  The loop over the scoring functions. The \<^verbatim>\<open>try\<close> looks the column up before it calls
  the scoring function; when the function raises, the \<^verbatim>\<open>except\<close> branch appends
  not-a-number to the same column.
\<close>

fun record_scores ::
  "string \<Rightarrow> (string \<times> (vec \<Rightarrow> y_pred \<Rightarrow> num option)) list \<Rightarrow> vec \<Rightarrow> y_pred \<Rightarrow> results \<Rightarrow>
   error + results" where
  "record_scores prefix [] y_true y_pred results = Inr results"
| "record_scores prefix ((name, score_func) # rest) y_true y_pred results =
     ebind (results_append (prefix @ ''_'' @ name)
              (case score_func y_true y_pred of None \<Rightarrow> NaN | Some v \<Rightarrow> v) results)
       (record_scores prefix rest y_true y_pred)"

text \<open>
  \<^verbatim>\<open>run_epoch(config, results, prefix)\<close>. The loader is unbound for a prefix that is
  neither \<^verbatim>\<open>"training"\<close> nor \<^verbatim>\<open>"validation"\<close>; the returned \<^verbatim>\<open>x\<close> is unbound when the
  loader has no batch.
\<close>

definition run_epoch ::
  "('s, 'x) TrainingConfig \<Rightarrow> results \<Rightarrow> string \<Rightarrow> real \<Rightarrow>
   error + (real \<times> 'x \<times> ('s, 'x) TrainingConfig \<times> results)" where
  "run_epoch config results prefix elapsed =
     (case (if prefix = ''training'' then Inr (Some (training_loader config))
            else if prefix = ''validation'' then Inr (validation_loader config)
            else Inl UnboundLocalError) of
        Inl e \<Rightarrow> Inl e
      | Inr None \<Rightarrow> Inl TypeError
      | Inr (Some data_loader) \<Rightarrow>
          (case foldl (batch_step config) (model config, [], [], [], None) data_loader of
             (s, running_loss, y_true, y_pred, x_last) \<Rightarrow>
               let y_pred = to_y_pred y_pred in
               ebind (record_scores prefix (score_funcs config) y_true y_pred results) (\<lambda>results.
               ebind (results_append (prefix @ ''_loss'') (np_mean running_loss) results) (\<lambda>results.
               case x_last of None \<Rightarrow> Inl UnboundLocalError
               | Some x \<Rightarrow> Inr (elapsed, x, config\<lparr>model := s\<rparr>, results)))))"

text \<open>The columns that \<^verbatim>\<open>train\<close> creates, and the empty table.\<close>

definition to_track_of :: "('s, 'x) TrainingConfig \<Rightarrow> string list" where
  "to_track_of config =
     [''epoch_time'', ''training_loss'']
     @ (if validation_loader config \<noteq> None then [''validation_loss''] else [])
     @ concat (map (\<lambda>(name, _). [''training_'' @ name, ''validation_'' @ name])
                 (score_funcs config))"

definition init_results :: "string list \<Rightarrow> results" where
  "init_results to_track = foldl (\<lambda>results item. AList.update item [] results) [] to_track"

text \<open>The loop over the epochs: \<open>e\<close> is the number of the epoch, \<open>n\<close> the epochs left.\<close>

fun train_epochs ::
  "(string \<Rightarrow> nat \<Rightarrow> real) \<Rightarrow> nat \<Rightarrow> nat \<Rightarrow> ('s, 'x) TrainingConfig \<Rightarrow> results \<Rightarrow> 'x option \<Rightarrow>
   error + (('s, 'x) TrainingConfig \<times> results \<times> 'x option)" where
  "train_epochs clock e 0 config results x_sample = Inr (config, results, x_sample)"
| "train_epochs clock e (Suc n) config results x_sample =
     (let config = config\<lparr>model_training := True\<rparr> in
      ebind (run_epoch config results ''training'' (clock ''training'' e))
        (\<lambda>(epoch_time, x_sample, config, results).
      ebind (if validation_loader config \<noteq> None
             then (let config = config\<lparr>model_training := False\<rparr> in
                   ebind (run_epoch config results ''validation'' (clock ''validation'' e))
                     (\<lambda>(t, x, config, results). Inr (config, results)))
             else Inr (config, results))
        (\<lambda>(config, results).
      ebind (results_append ''epoch_time'' (Num epoch_time) results) (\<lambda>results.
      train_epochs clock (Suc e) n config results (Some x_sample)))))"

text \<open>\<^verbatim>\<open>train\<close> up to the end of the loop over the epochs.\<close>

definition train_results ::
  "('s, 'x) TrainingConfig \<Rightarrow> (string \<Rightarrow> nat \<Rightarrow> real) \<Rightarrow>
   error + (('s, 'x) TrainingConfig \<times> results \<times> 'x option)" where
  "train_results config clock =
     train_epochs clock 0 (nat (epochs config)) config (init_results (to_track_of config)) None"

text \<open>
  \<^verbatim>\<open>pd.DataFrame.from_dict(results)\<close> raises \<^verbatim>\<open>ValueError\<close> when the columns have
  different lengths.
\<close>

definition DataFrame_from_dict :: "results \<Rightarrow> error + results" where
  "DataFrame_from_dict results =
     (case results of [] \<Rightarrow> Inr []
      | (k, col) # rest \<Rightarrow>
          if list_all (\<lambda>(k', c). length c = length col) rest then Inr results
          else Inl ValueError)"

definition train ::
  "('s, 'x) TrainingConfig \<Rightarrow> (string \<Rightarrow> nat \<Rightarrow> real) \<Rightarrow> error + results" where
  "train config clock =
     ebind (train_results config clock) (\<lambda>(config, results, x_sample).
     ebind (if save_model config
            then (case x_sample of None \<Rightarrow> Inl UnboundLocalError
                  | Some x \<Rightarrow> (case save_call config (model config) x of
                                 Some e \<Rightarrow> Inl e | None \<Rightarrow> Inr ()))
            else Inr ())
       (\<lambda>u. DataFrame_from_dict results))"

section \<open>Predicates of the statements and example parameters\<close>



text \<open>
  \<open>raises_iff c A\<close>: the constructor \<open>c\<close> raises exactly when \<open>A\<close> holds, whatever the state
  of the random number generator.
\<close>

definition raises_iff :: "'a ctor \<Rightarrow> bool \<Rightarrow> bool" where
  "raises_iff c A = (\<forall>g. isl (c g) = A)"

text \<open>
  A GPT2-style stack with vocabulary size 2, embedding width 2, context window 2, one
  head and one block. Every linear layer of the block has zero weights, so the block
  returns its input; the projection is the identity matrix.
\<close>

definition zero_Linear :: "nat \<Rightarrow> nat \<Rightarrow> bool \<Rightarrow> Linear" where
  "zero_Linear n_in n_out with_bias =
     \<lparr>in_features = n_in, out_features = n_out, lin_weight = replicate n_out (replicate n_in 0),
      lin_bias = (if with_bias then Some (replicate n_out 0) else None)\<rparr>"



section \<open>Basic facts\<close>

subsection \<open>The error monad, softmax and sampling\<close>

lemma ebind_Inl [simp]: "ebind (Inl e) f = Inl e"
  by (simp add: ebind_def)

lemma ebind_Inr [simp]: "ebind (Inr v) f = f v"
  by (simp add: ebind_def)

lemma ebind_eq_Inr: "ebind m f = Inr y \<longleftrightarrow> (\<exists>v. m = Inr v \<and> f v = Inr y)"
  by (cases m) simp_all


lemma sum_list_divide: "sum_list (map (\<lambda>e. e / z) es) = sum_list es / (z::real)"
  by (induction es) (simp_all add: add_divide_distrib)

lemma exp_score_nonneg: "0 \<le> exp_score s"
  by (cases s) (simp_all add: exp_score_def)

lemma sum_exp_score_nonneg: "0 \<le> sum_list (map exp_score xs)"
  by (induction xs) (simp_all add: exp_score_nonneg)

lemma sum_exp_score_pos: "Fin v \<in> set xs \<Longrightarrow> 0 < sum_list (map exp_score xs)"
proof (induction xs)
  case Nil
  then show ?case by simp
next
  case (Cons x xs)
  show ?case
  proof (cases "x = Fin v")
    case True
    then have "0 < exp_score x"
      by (simp add: exp_score_def)
    then show ?thesis
      using sum_exp_score_nonneg[of xs] by simp
  next
    case False
    with Cons have "0 < sum_list (map exp_score xs)"
      by simp
    then show ?thesis
      using exp_score_nonneg[of x] by simp
  qed
qed

lemma softmax_length [simp]: "length (softmax xs) = length xs"
  by (simp add: softmax_def Let_def)

lemma softmax_nth:
  "i < length xs \<Longrightarrow> softmax xs ! i = exp_score (xs ! i) / sum_list (map exp_score xs)"
  by (simp add: softmax_def Let_def)

lemma softmax_sum: "Fin v \<in> set xs \<Longrightarrow> sum_list (softmax xs) = 1"
proof -
  assume "Fin v \<in> set xs"
  then have "0 < sum_list (map exp_score xs)"
    by (rule sum_exp_score_pos)
  moreover have "sum_list (softmax xs) = sum_list (map exp_score xs) / sum_list (map exp_score xs)"
    unfolding softmax_def Let_def by (rule sum_list_divide)
  ultimately show ?thesis
    by simp
qed





subsection \<open>The loop of the sampler\<close>





lemma idx_cond_length [simp]: "length (idx_cond_of bs idx) = length idx"
  by (simp add: idx_cond_of_def split: option.splits)







subsection \<open>The example stack\<close>

lemma gelu_0 [simp]: "gelu 0 = 0"
  by (simp add: gelu_def)













subsection \<open>Construction\<close>

lemma cbind_eq_Inr:
  "cbind c f g = Inr r \<longleftrightarrow> (\<exists>v g'. c g = Inr (v, g') \<and> f v g' = Inr r)"
  by (cases "c g") (auto simp: cbind_def)

lemma creturn_eq_Inr [simp]: "creturn v g = Inr r \<longleftrightarrow> r = (v, g)"
  by (auto simp: creturn_def)

lemma craise_neq_Inr [simp]: "craise e g \<noteq> Inr r"
  by (simp add: craise_def)

lemma not_isl_ex: "\<not> isl (r :: error + 'a \<times> rng) \<longleftrightarrow> (\<exists>v g'. r = Inr (v, g'))"
  by (cases r) auto

lemma raises_iffD: "raises_iff c A \<Longrightarrow> isl (c g) = A"
  by (simp add: raises_iff_def)

lemma raises_iff_cbind:
  assumes "raises_iff c A" "\<And>v. raises_iff (f v) B"
  shows "raises_iff (cbind c f) (A \<or> B)"
  unfolding raises_iff_def
proof
  fix g
  show "isl (cbind c f g) = (A \<or> B)"
  proof (cases "c g")
    case (Inl e)
    with raises_iffD[OF assms(1), of g] show ?thesis
      by (simp add: cbind_def)
  next
    case (Inr r)
    obtain v g' where r: "r = (v, g')"
      by (cases r)
    from Inr raises_iffD[OF assms(1), of g] have "\<not> A"
      by simp
    with Inr r raises_iffD[OF assms(2), of v g'] show ?thesis
      by (simp add: cbind_def)
  qed
qed

lemma raises_iff_creturn: "raises_iff (creturn v) False"
  by (simp add: raises_iff_def creturn_def)

lemma raises_iff_craise: "raises_iff (craise e) True"
  by (simp add: raises_iff_def craise_def)

lemma raises_iff_if: "raises_iff (if b then craise e else creturn v) b"
  by (simp add: raises_iff_def creturn_def craise_def)

lemma raises_iff_eq: "raises_iff c A \<Longrightarrow> A = A' \<Longrightarrow> raises_iff c A'"
  by simp

lemma raises_iff_crepeat:
  assumes "raises_iff c A"
  shows "raises_iff (crepeat n c) (0 < n \<and> A)"
proof (induction n)
  case 0
  then show ?case
    by (simp add: raises_iff_creturn)
next
  case (Suc n)
  have "raises_iff (crepeat (Suc n) c) (A \<or> (0 < n \<and> A) \<or> False)"
    unfolding crepeat.simps
    by (intro raises_iff_cbind assms Suc raises_iff_creturn)
  then show ?case
    by (rule raises_iff_eq) auto
qed

lemma raises_iff_random_tensor: "raises_iff (random_tensor r c) (r < 0 \<or> c < 0)"
  by (simp add: raises_iff_def random_tensor_def)

lemma raises_iff_bias:
  "raises_iff (\<lambda>g. if wb then (case draw_vec n g of (b, g') \<Rightarrow> Inr (Some b, g')) else Inr (None, g)) False"
  by (simp add: raises_iff_def split: prod.splits)

lemma raises_iff_Linear_init: "raises_iff (Linear_init n_in n_out wb) (n_in < 0 \<or> n_out < 0)"
proof -
  have "raises_iff (Linear_init n_in n_out wb) ((n_out < 0 \<or> n_in < 0) \<or> False \<or> False)"
    unfolding Linear_init_def
    by (intro raises_iff_cbind raises_iff_random_tensor raises_iff_bias raises_iff_creturn)
  then show ?thesis
    by (rule raises_iff_eq) auto
qed

lemma raises_iff_Embedding_init: "raises_iff (Embedding_init n d) (n < 0 \<or> d < 0)"
  unfolding Embedding_init_def by (rule raises_iff_random_tensor)

lemma raises_iff_Dropout_init: "raises_iff (Dropout_init p) (p < 0 \<or> 1 < p)"
  unfolding Dropout_init_def by (rule raises_iff_if)

lemma raises_iff_LayerNorm_init: "raises_iff (LayerNorm_init n wb) (n < 0)"
  unfolding LayerNorm_init_def by (rule raises_iff_if)

lemma raises_iff_nn_LayerNorm_init: "raises_iff (nn_LayerNorm_init n) (n < 0)"
  unfolding nn_LayerNorm_init_def by (rule raises_iff_if)

lemma raises_iff_Head_init:
  "raises_iff (Head_init hs ne bsz p) (ne < 0 \<or> hs < 0 \<or> bsz < 0 \<or> p < 0 \<or> 1 < p)"
proof -
  have "raises_iff (Head_init hs ne bsz p) ((ne < 0 \<or> hs < 0) \<or> (ne < 0 \<or> hs < 0) \<or> (ne < 0 \<or> hs < 0) \<or> bsz < 0 \<or> (p < 0 \<or> 1 < p) \<or> False)"
    unfolding Head_init_def
    by (intro raises_iff_cbind raises_iff_Linear_init raises_iff_if raises_iff_Dropout_init raises_iff_creturn)
  then show ?thesis
    by (rule raises_iff_eq) auto
qed

lemma raises_iff_MultiHeadAttention_init:
  "raises_iff (MultiHeadAttention_init H hs ne bsz p)
     (ne < 0 \<or> p < 0 \<or> 1 < p \<or> (0 < H \<and> (hs < 0 \<or> bsz < 0)))"
proof -
  have "raises_iff (MultiHeadAttention_init H hs ne bsz p) ((0 < nat H \<and> (ne < 0 \<or> hs < 0 \<or> bsz < 0 \<or> p < 0 \<or> 1 < p)) \<or> (ne < 0 \<or> ne < 0) \<or> (p < 0 \<or> 1 < p) \<or> False)"
    unfolding MultiHeadAttention_init_def
    by (intro raises_iff_cbind raises_iff_crepeat raises_iff_Head_init raises_iff_Linear_init raises_iff_Dropout_init raises_iff_creturn)
  then show ?thesis
    by (rule raises_iff_eq) auto
qed

lemma raises_iff_FeedFoward_init:
  "raises_iff (FeedFoward_init ne p) (ne < 0 \<or> p < 0 \<or> 1 < p)"
proof -
  have "raises_iff (FeedFoward_init ne p) ((ne < 0 \<or> 4 * ne < 0) \<or> (4 * ne < 0 \<or> ne < 0) \<or> (p < 0 \<or> 1 < p) \<or> False)"
    unfolding FeedFoward_init_def
    by (intro raises_iff_cbind raises_iff_Linear_init raises_iff_Dropout_init raises_iff_creturn)
  then show ?thesis
    by (rule raises_iff_eq) auto
qed

lemma raises_iff_FeedFowardGPT2_init:
  "raises_iff (FeedFowardGPT2_init ne p) (ne < 0 \<or> p < 0 \<or> 1 < p)"
proof -
  have "raises_iff (FeedFowardGPT2_init ne p) ((ne < 0 \<or> 4 * ne < 0) \<or> (4 * ne < 0 \<or> ne < 0) \<or> (p < 0 \<or> 1 < p) \<or> False)"
    unfolding FeedFowardGPT2_init_def
    by (intro raises_iff_cbind raises_iff_Linear_init raises_iff_Dropout_init raises_iff_creturn)
  then show ?thesis
    by (rule raises_iff_eq) auto
qed

lemma div_neg_iff: "0 \<le> ne \<Longrightarrow> 0 < H \<Longrightarrow> \<not> ne div H < (0::int)"
  using pos_imp_zdiv_nonneg_iff[of H ne] by simp

lemma raises_iff_Block_init:
  "raises_iff (Block_init ne H bsz p)
     (H = 0 \<or> ne < 0 \<or> p < 0 \<or> 1 < p \<or> (0 < H \<and> bsz < 0))"
proof (cases "H = 0")
  case True
  then show ?thesis
    by (simp add: Block_init_def raises_iff_craise)
next
  case False
  have "raises_iff (Block_init ne H bsz p)
     ((ne < 0 \<or> p < 0 \<or> 1 < p \<or> (0 < H \<and> (ne div H < 0 \<or> bsz < 0)))
        \<or> (ne < 0 \<or> p < 0 \<or> 1 < p) \<or> ne < 0 \<or> ne < 0 \<or> False)"
    using False unfolding Block_init_def Let_def
    by (simp only: if_False)
       (intro raises_iff_cbind raises_iff_MultiHeadAttention_init raises_iff_FeedFoward_init
         raises_iff_nn_LayerNorm_init raises_iff_creturn)
  then show ?thesis
    by (rule raises_iff_eq) (use False div_neg_iff[of ne H] in auto)
qed

lemma raises_iff_BlockGPT1_init:
  "raises_iff (BlockGPT1_init ne H bsz p)
     (H = 0 \<or> ne < 0 \<or> p < 0 \<or> 1 < p \<or> (0 < H \<and> bsz < 0))"
proof (cases "H = 0")
  case True
  then show ?thesis
    by (simp add: BlockGPT1_init_def raises_iff_craise)
next
  case False
  have "raises_iff (BlockGPT1_init ne H bsz p)
     ((ne < 0 \<or> p < 0 \<or> 1 < p \<or> (0 < H \<and> (ne div H < 0 \<or> bsz < 0)))
        \<or> (ne < 0 \<or> p < 0 \<or> 1 < p) \<or> ne < 0 \<or> ne < 0 \<or> False)"
    using False unfolding BlockGPT1_init_def Let_def
    by (simp only: if_False)
       (intro raises_iff_cbind raises_iff_MultiHeadAttention_init raises_iff_FeedFoward_init
         raises_iff_nn_LayerNorm_init raises_iff_creturn)
  then show ?thesis
    by (rule raises_iff_eq) (use False div_neg_iff[of ne H] in auto)
qed

lemma raises_iff_BlockGPT2_init:
  "raises_iff (BlockGPT2_init ne H bsz wb p)
     (H = 0 \<or> ne < 0 \<or> p < 0 \<or> 1 < p \<or> (0 < H \<and> bsz < 0))"
proof (cases "H = 0")
  case True
  then show ?thesis
    by (simp add: BlockGPT2_init_def raises_iff_craise)
next
  case False
  have "raises_iff (BlockGPT2_init ne H bsz wb p)
     ((ne < 0 \<or> p < 0 \<or> 1 < p \<or> (0 < H \<and> (ne div H < 0 \<or> bsz < 0)))
        \<or> (ne < 0 \<or> p < 0 \<or> 1 < p) \<or> ne < 0 \<or> ne < 0 \<or> False)"
    using False unfolding BlockGPT2_init_def Let_def
    by (simp only: if_False)
       (intro raises_iff_cbind raises_iff_MultiHeadAttention_init raises_iff_FeedFowardGPT2_init
         raises_iff_LayerNorm_init raises_iff_creturn)
  then show ?thesis
    by (rule raises_iff_eq) (use False div_neg_iff[of ne H] in auto)
qed

lemma raises_iff_simpleGPT_init:
  "raises_iff (simpleGPT_init v ne H bsz nl p)
     (v < 0 \<or> ne < 0 \<or> bsz < 0
      \<or> (0 < nl \<and> (H = 0 \<or> p < 0 \<or> 1 < p)))"
proof -
  have "raises_iff (simpleGPT_init v ne H bsz nl p)
     ((v < 0 \<or> ne < 0) \<or> (bsz < 0 \<or> ne < 0)
       \<or> (0 < nat nl \<and> (H = 0 \<or> ne < 0 \<or> p < 0 \<or> 1 < p \<or> (0 < H \<and> bsz < 0)))
       \<or> ne < 0 \<or> (ne < 0 \<or> v < 0) \<or> False)"
    unfolding simpleGPT_init_def
    by (intro raises_iff_cbind raises_iff_Embedding_init raises_iff_crepeat raises_iff_Block_init
        raises_iff_nn_LayerNorm_init raises_iff_Linear_init raises_iff_creturn)
  then show ?thesis
    by (rule raises_iff_eq) auto
qed

lemma simpleGPT_init_ln_f:
  assumes "simpleGPT_init v ne H bsz nl p g = Inr (m, g')"
  shows "sg_ln_f m = \<lparr>nln_weight = replicate (nat ne) 1, nln_bias = replicate (nat ne) 0\<rparr>"
  using assms
  by (auto simp: simpleGPT_init_def cbind_eq_Inr nn_LayerNorm_init_def split: if_splits)

lemma random_tensor_length:
  "random_tensor r c g = Inr (w, g') \<Longrightarrow> length w = nat r"
  by (auto simp: random_tensor_def draw_mat_def split: if_splits)

lemma Linear_init_props:
  assumes "Linear_init a b wb g = Inr (l, g')"
  shows "in_features l = nat a" "out_features l = nat b" "length (lin_weight l) = nat b"
    "\<not> wb \<Longrightarrow> lin_bias l = None"
  using assms
  by (auto simp: Linear_init_def cbind_eq_Inr dest: random_tensor_length split: if_splits prod.splits)

lemma Head_init_props:
  assumes "Head_init hs ne bsz p g = Inr (h, g')"
  shows "lin_bias (h_value h) = None" "length (lin_weight (h_value h)) = nat hs"
    "h_tril h = tril_ones (nat bsz)" "in_features (h_key h) = nat ne"
    "in_features (h_query h) = nat ne" "out_features (h_key h) = nat hs"
proof -
  from assms obtain k g1 where k: "Linear_init ne hs False g = Inr (k, g1)"
    and r1: "cbind (Linear_init ne hs False) (\<lambda>q.
     cbind (Linear_init ne hs False) (\<lambda>v.
     cbind (if bsz < 0 then craise RuntimeError
            else creturn (tril_ones (nat bsz))) (\<lambda>tril.
     cbind (Dropout_init p) (\<lambda>d.
     creturn \<lparr>h_key = k, h_query = q, h_value = v, h_tril = tril, h_dropout = d\<rparr>)))) g1 = Inr (h, g')"
    unfolding Head_init_def by (subst (asm) cbind_eq_Inr) blast
  from r1 obtain q g2 where q: "Linear_init ne hs False g1 = Inr (q, g2)"
    and r2: "cbind (Linear_init ne hs False) (\<lambda>v.
     cbind (if bsz < 0 then craise RuntimeError
            else creturn (tril_ones (nat bsz))) (\<lambda>tril.
     cbind (Dropout_init p) (\<lambda>d.
     creturn \<lparr>h_key = k, h_query = q, h_value = v, h_tril = tril, h_dropout = d\<rparr>))) g2 = Inr (h, g')"
    by (subst (asm) cbind_eq_Inr) blast
  from r2 obtain v g3 where v: "Linear_init ne hs False g2 = Inr (v, g3)"
    and r3: "cbind (if bsz < 0 then craise RuntimeError
            else creturn (tril_ones (nat bsz))) (\<lambda>tril.
     cbind (Dropout_init p) (\<lambda>d.
     creturn \<lparr>h_key = k, h_query = q, h_value = v, h_tril = tril, h_dropout = d\<rparr>)) g3 = Inr (h, g')"
    by (subst (asm) cbind_eq_Inr) blast
  from r3 obtain d where h: "h = \<lparr>h_key = k, h_query = q, h_value = v, h_tril = tril_ones (nat bsz), h_dropout = d\<rparr>"
    by (auto simp: cbind_eq_Inr split: if_splits)
  note kp = Linear_init_props[OF k] and qp = Linear_init_props[OF q] and vp = Linear_init_props[OF v]
  show "lin_bias (h_value h) = None" "length (lin_weight (h_value h)) = nat hs"
    "h_tril h = tril_ones (nat bsz)" "in_features (h_key h) = nat ne"
    "in_features (h_query h) = nat ne" "out_features (h_key h) = nat hs"
    using kp qp vp by (simp_all add: h)
qed

lemma cbindE:
  assumes "cbind c f g = Inr r"
  obtains v g' where "c g = Inr (v, g')" "f v g' = Inr r"
  using assms by (auto simp: cbind_eq_Inr)

lemma crepeat_props:
  assumes "crepeat n c g = Inr (vs, g')" "\<And>g v g'. c g = Inr (v, g') \<Longrightarrow> P v"
  shows "length vs = n \<and> (\<forall>v\<in>set vs. P v)"
  using assms(1)
proof (induction n arbitrary: g vs g')
  case 0
  then show ?case by simp
next
  case (Suc n)
  from Suc.prems have "cbind c (\<lambda>v. cbind (crepeat n c) (\<lambda>vs. creturn (v # vs))) g = Inr (vs, g')"
    by (simp only: crepeat.simps)
  then obtain v g1 where c: "c g = Inr (v, g1)"
    and r1: "cbind (crepeat n c) (\<lambda>vs. creturn (v # vs)) g1 = Inr (vs, g')"
    by (rule cbindE)
  from r1 obtain vs' g2 where r: "crepeat n c g1 = Inr (vs', g2)"
    and ret: "creturn (v # vs') g2 = Inr (vs, g')"
    by (rule cbindE)
  from ret have vs: "vs = v # vs'" "g' = g2"
    by simp_all
  from Suc.IH[OF r[unfolded vs(2)[symmetric]]] assms(2)[OF c] vs show ?case
    by simp
qed

lemma MultiHeadAttention_init_props:
  assumes "MultiHeadAttention_init H hs ne bsz p g = Inr (m, g')"
  shows "length (mha_heads m) = nat H"
    "\<forall>h\<in>set (mha_heads m). lin_bias (h_value h) = None \<and> length (lin_weight (h_value h)) = nat hs"
    "in_features (mha_proj m) = nat ne"
proof -
  from assms obtain hds g1 where
    hds: "crepeat (nat H) (Head_init hs ne bsz p) g = Inr (hds, g1)"
    and r1: "cbind (Linear_init ne ne True) (\<lambda>proj.
     cbind (Dropout_init p) (\<lambda>d.
     creturn \<lparr>mha_heads = hds, mha_proj = proj, mha_dropout = d\<rparr>)) g1 = Inr (m, g')"
    unfolding MultiHeadAttention_init_def by (rule cbindE)
  from r1 obtain proj g2 where proj: "Linear_init ne ne True g1 = Inr (proj, g2)"
    and r2: "cbind (Dropout_init p) (\<lambda>d.
     creturn \<lparr>mha_heads = hds, mha_proj = proj, mha_dropout = d\<rparr>) g2 = Inr (m, g')"
    by (rule cbindE)
  from r2 obtain d g3 where "creturn \<lparr>mha_heads = hds, mha_proj = proj, mha_dropout = d\<rparr> g3 = Inr (m, g')"
    by (rule cbindE)
  then have m: "m = \<lparr>mha_heads = hds, mha_proj = proj, mha_dropout = d\<rparr>"
    by simp
  have "length hds = nat H \<and> (\<forall>h\<in>set hds. lin_bias (h_value h) = None \<and> length (lin_weight (h_value h)) = nat hs)"
    using hds
  proof (rule crepeat_props)
    fix g h g' assume "Head_init hs ne bsz p g = Inr (h, g')"
    from Head_init_props(1,2)[OF this]
    show "lin_bias (h_value h) = None \<and> length (lin_weight (h_value h)) = nat hs"
      by simp
  qed
  with m Linear_init_props(1)[OF proj]
  show "length (mha_heads m) = nat H"
    "\<forall>h\<in>set (mha_heads m). lin_bias (h_value h) = None \<and> length (lin_weight (h_value h)) = nat hs"
    "in_features (mha_proj m) = nat ne"
    by simp_all
qed

lemma Linear_forward_shape:
  assumes "Linear_forward l x = Inr y"
  shows "length y = length x" "lin_bias l = None \<Longrightarrow> \<forall>r\<in>set y. length r = length (lin_weight l)"
  using assms by (auto simp: Linear_forward_def Linear_row_def Let_def split: if_splits)

lemma masked_fill_length: "masked_fill wei msk = Inr w \<Longrightarrow> length w = length wei"
  by (auto simp: masked_fill_def split: if_splits)

lemma Head_weights_length:
  assumes "Head_weights h x = Inr w"
  shows "length w = length x"
  using assms
  by (auto simp: Head_weights_def Let_def ebind_eq_Inr Dropout_forward_def matmul_nt_def
      dest!: masked_fill_length Linear_forward_shape(1) split: if_splits)

lemma foldr_max_length_rect:
  "\<forall>r\<in>set xs. length r = n \<Longrightarrow>
   foldr (\<lambda>xs. max (length xs)) xs 0 = (if xs = [] then 0 else n)"
  by (induction xs) auto

lemma transpose_rect_length:
  assumes "xs \<noteq> []" "\<forall>r\<in>set xs. length r = n"
  shows "length (transpose xs) = n"
  using assms foldr_max_length_rect[of xs n] by (simp add: length_transpose)

lemma Head_forward_shape:
  assumes "Head_forward h x = Inr y" "lin_bias (h_value h) = None" "x \<noteq> []"
  shows "length y = length x \<and> (\<forall>r\<in>set y. length r = length (lin_weight (h_value h)))"
proof -
  from assms(1) obtain w v where w: "Head_weights h x = Inr w"
    and v: "Linear_forward (h_value h) x = Inr v" and y: "y = matmul w v"
    by (auto simp: Head_forward_def ebind_eq_Inr)
  from Linear_forward_shape[OF v] assms(2,3)
  have "v \<noteq> []" "\<forall>r\<in>set v. length r = length (lin_weight (h_value h))"
    by auto
  then have "length (transpose v) = length (lin_weight (h_value h))"
    by (rule transpose_rect_length)
  with Head_weights_length[OF w] y show ?thesis
    by (simp add: matmul_def matmul_nt_def)
qed

lemma cat_last_shape:
  assumes "cat_last outs = Inr r" "\<forall>out\<in>set outs. length out = T \<and> (\<forall>row\<in>set out. length row = n)"
  shows "length r = T \<and> (\<forall>row\<in>set r. length row = length outs * n)"
  using assms
proof (induction outs arbitrary: r rule: cat_last.induct)
  case 1
  then show ?case by simp
next
  case (2 m)
  then show ?case by simp
next
  case (3 m v va)
  from "3.prems"(1) obtain r' where r': "cat_last (v # va) = Inr r'" and r: "r = map2 (@) m r'"
    by (auto simp: ebind_eq_Inr)
  from "3.IH"[OF r'] "3.prems"(2)
  have ih: "length r' = T" "\<forall>row\<in>set r'. length row = length (v # va) * n"
    by auto
  have m: "length m = T" "\<forall>row\<in>set m. length row = n"
    using "3.prems"(2) by auto
  have "length row = length (m # v # va) * n" if "row \<in> set r" for row
  proof -
    from that r obtain a b where "(a, b) \<in> set (zip m r')" "row = a @ b"
      by auto
    then have "a \<in> set m" "b \<in> set r'" "row = a @ b"
      by (auto dest: set_zip_leftD set_zip_rightD)
    with m(2) ih(2) show ?thesis
      by simp
  qed
  with r ih(1) m(1) show ?case
    by simp
qed

lemma traverse_Inr_props:
  assumes "traverse f xs = Inr ys"
  shows "length ys = length xs \<and> (\<forall>y\<in>set ys. \<exists>x\<in>set xs. f x = Inr y)"
  using assms
  by (induction xs arbitrary: ys) (auto split: sum.splits)

lemma MultiHeadAttention_forward_mismatch:
  assumes heads: "\<forall>h\<in>set (mha_heads m). lin_bias (h_value h) = None \<and> length (lin_weight (h_value h)) = n"
    and mis: "mha_heads m = [] \<or> length (mha_heads m) * n \<noteq> in_features (mha_proj m)"
    and x: "x \<noteq> []"
  shows "isl (MultiHeadAttention_forward m x)"
proof (cases "traverse (\<lambda>h. Head_forward h x) (mha_heads m)")
  case (Inl e)
  then show ?thesis
    by (simp add: MultiHeadAttention_forward_def)
next
  case (Inr outs)
  note tr = traverse_Inr_props[OF Inr]
  show ?thesis
  proof (cases "cat_last outs")
    case (Inl e)
    with Inr show ?thesis
      by (simp add: MultiHeadAttention_forward_def)
  next
    case (Inr r)
    have "\<forall>out\<in>set outs. length out = length x \<and> (\<forall>row\<in>set out. length row = n)"
    proof
      fix out assume "out \<in> set outs"
      with tr obtain h where "h \<in> set (mha_heads m)" "Head_forward h x = Inr out"
        by blast
      with Head_forward_shape[of h x out] heads x
      show "length out = length x \<and> (\<forall>row\<in>set out. length row = n)"
        by auto
    qed
    from cat_last_shape[OF Inr this]
    have r: "length r = length x" "\<forall>row\<in>set r. length row = length outs * n"
      by auto
    have "outs \<noteq> []"
      using Inr by auto
    with tr mis have "length outs * n \<noteq> in_features (mha_proj m)"
      by auto
    moreover from r(1) x obtain row where "row \<in> set r"
      by (cases r) auto
    ultimately have "\<not> list_all (\<lambda>r. length r = in_features (mha_proj m)) r"
      using r(2) by (auto simp: list_all_iff)
    then show ?thesis
      using Inr \<open>traverse (\<lambda>h. Head_forward h x) (mha_heads m) = Inr outs\<close>
      by (simp add: MultiHeadAttention_forward_def Linear_forward_def)
  qed
qed

lemma MultiHeadAttention_init_mismatch:
  assumes init: "MultiHeadAttention_init H hs ne bsz p g = Inr (m, g')"
    and mis: "H * hs \<noteq> ne" and x: "x \<noteq> []"
  shows "isl (MultiHeadAttention_forward m x)"
proof -
  note props = MultiHeadAttention_init_props[OF init]
  have ok: "\<not> (ne < 0 \<or> p < 0 \<or> 1 < p \<or> (0 < H \<and> (hs < 0 \<or> bsz < 0)))"
    using raises_iffD[OF raises_iff_MultiHeadAttention_init, of H hs ne bsz p g] init by simp
  have "mha_heads m = [] \<or> length (mha_heads m) * nat hs \<noteq> in_features (mha_proj m)"
  proof (cases "0 < H")
    case True
    with ok have "0 \<le> hs" "0 \<le> ne"
      by auto
    with True have "nat H * nat hs = nat (H * hs)"
      by (simp add: nat_mult_distrib)
    moreover have "nat (H * hs) \<noteq> nat ne"
      using mis \<open>0 \<le> hs\<close> \<open>0 \<le> ne\<close> True by (simp add: nat_eq_iff)
    ultimately show ?thesis
      using props by simp
  next
    case False
    then show ?thesis
      using props(1) by simp
  qed
  with props(2) x show ?thesis
    by (intro MultiHeadAttention_forward_mismatch[where n = "nat hs"]) auto
qed

lemma not_dvd_div_mult: "\<not> H dvd ne \<Longrightarrow> H * (ne div H) \<noteq> (ne::int)"
  by (metis dvd_triv_left)

lemma layer_norm_length: "layer_norm x n w b eps = Inr y \<Longrightarrow> length y = length x"
  by (auto simp: layer_norm_def split: if_splits)

lemma Block_init_forward_mismatch:
  assumes "Block_init ne H bsz p g = Inr (b, g')" "\<not> H dvd ne" "x \<noteq> []"
  shows "isl (Block_forward b x)"
proof -
  from assms(1) obtain g1 where H: "H \<noteq> 0"
    and sa: "MultiHeadAttention_init H (ne div H) ne bsz p g = Inr (b_sa b, g1)"
    by (auto simp: Block_init_def Let_def cbind_eq_Inr craise_def split: if_splits)
  show ?thesis
  proof (cases "nn_LayerNorm_forward (b_ln1 b) x")
    case (Inl e)
    then show ?thesis
      by (simp add: Block_forward_def)
  next
    case (Inr n1)
    then have "n1 \<noteq> []"
      using assms(3) by (auto simp: nn_LayerNorm_forward_def dest: layer_norm_length)
    from MultiHeadAttention_init_mismatch[OF sa not_dvd_div_mult[OF assms(2)] this] Inr
    show ?thesis
      by (cases "MultiHeadAttention_forward (b_sa b) n1") (simp_all add: Block_forward_def)
  qed
qed

lemma BlockGPT1_init_forward_mismatch:
  assumes "BlockGPT1_init ne H bsz p g = Inr (b, g')" "\<not> H dvd ne" "x \<noteq> []"
  shows "isl (BlockGPT1_forward b x)"
proof -
  from assms(1) obtain g1 where
    sa: "MultiHeadAttention_init H (ne div H) ne bsz p g = Inr (b1_multi_head b, g1)"
    by (auto simp: BlockGPT1_init_def Let_def cbind_eq_Inr craise_def split: if_splits)
  from MultiHeadAttention_init_mismatch[OF sa not_dvd_div_mult[OF assms(2)] assms(3)]
  show ?thesis
    by (cases "MultiHeadAttention_forward (b1_multi_head b) x") (simp_all add: BlockGPT1_forward_def)
qed

lemma BlockGPT2_init_forward_mismatch:
  assumes "BlockGPT2_init ne H bsz wb p g = Inr (b, g')" "\<not> H dvd ne" "x \<noteq> []"
  shows "isl (BlockGPT2_forward b x)"
proof -
  from assms(1) obtain g1 where
    sa: "MultiHeadAttention_init H (ne div H) ne bsz p g = Inr (b2_multi_head b, g1)"
    by (auto simp: BlockGPT2_init_def Let_def cbind_eq_Inr craise_def split: if_splits)
  show ?thesis
  proof (cases "LayerNorm_forward (b2_ln1 b) x")
    case (Inl e)
    then show ?thesis
      by (simp add: BlockGPT2_forward_def)
  next
    case (Inr n1)
    then have "n1 \<noteq> []"
      using assms(3) by (auto simp: LayerNorm_forward_def dest: layer_norm_length)
    from MultiHeadAttention_init_mismatch[OF sa not_dvd_div_mult[OF assms(2)] this] Inr
    show ?thesis
      by (cases "MultiHeadAttention_forward (b2_multi_head b) n1") (simp_all add: BlockGPT2_forward_def)
  qed
qed

subsection \<open>Attention weights\<close>

lemma tril_slice:
  assumes "T \<le> n"
  shows "map (take T) (take T (tril_ones n)) = tril_ones T"
proof -
  have "take T [0..<n] = [0..<T]"
    using assms by (simp add: take_upt)
  then show ?thesis
    by (simp add: tril_ones_def take_map)
qed

lemma Linear_forward_Inr:
  "list_all (\<lambda>r. length r = in_features l) x \<Longrightarrow> Linear_forward l x = Inr (map (Linear_row l) x)"
  by (simp add: Linear_forward_def)

lemma masked_fill_square:
  assumes "length msk = length wei" "list_all (\<lambda>r. length r = length wei) msk"
  shows "masked_fill wei msk = Inr (map2 (map2 (\<lambda>v m. if m then MinusInf else Fin v)) wei msk)"
  using assms by (simp add: masked_fill_def)

lemma softmax_nonneg: "j < length xs \<Longrightarrow> 0 \<le> softmax xs ! j"
  by (simp add: softmax_nth exp_score_nonneg sum_exp_score_nonneg)

lemma softmax_masked: "j < length xs \<Longrightarrow> xs ! j = MinusInf \<Longrightarrow> softmax xs ! j = 0"
  by (simp add: softmax_nth exp_score_def)

lemma map_nth_upt: "map f xs = map (\<lambda>i. f (xs ! i)) [0..<length xs]"
proof -
  have "map f xs = map f (map ((!) xs) [0..<length xs])"
    by (simp only: map_nth)
  also have "\<dots> = map (\<lambda>i. f (xs ! i)) [0..<length xs]"
    by (simp only: map_map comp_def)
  finally show ?thesis .
qed

lemma map2_map_same: "map2 F (map f xs) (map g xs) = map (\<lambda>i. F (f i) (g i)) xs"
  by (induction xs) auto

lemma Head_weights_eq:
  assumes tril: "h_tril h = tril_ones bsz" and T: "length x \<le> bsz"
    and kx: "list_all (\<lambda>r. length r = in_features (h_key h)) x"
    and qx: "list_all (\<lambda>r. length r = in_features (h_query h)) x"
    and hs: "0 < out_features (h_key h)"
  shows "Head_weights h x =
     Inr (map (\<lambda>i. softmax (map (\<lambda>j. if i < j then MinusInf
            else Fin (dot (Linear_row (h_query h) (x ! i)) (Linear_row (h_key h) (x ! j))
                      * (1 / sqrt (real (out_features (h_key h))))))
          [0..<length x])) [0..<length x])"
proof -
  define T where "T = length x"
  define sc where "sc = 1 / sqrt (real (out_features (h_key h)))"
  define e where "e = (\<lambda>i j. dot (Linear_row (h_query h) (x ! i)) (Linear_row (h_key h) (x ! j)) * sc)"
  define wei where "wei = map (map (\<lambda>s. s * sc))
      (matmul_nt (map (Linear_row (h_query h)) x) (map (Linear_row (h_key h)) x))"
  define msk where "msk = map (map (\<lambda>m. m = 0)) (map (take T) (take T (h_tril h)))"
  have "map (take T) (take T (h_tril h)) = tril_ones T"
    unfolding T_def by (simp only: tril tril_slice[OF T])
  then have msk: "msk = map (\<lambda>i. map (\<lambda>j. \<not> j \<le> i) [0..<T]) [0..<T]"
    by (simp add: msk_def tril_ones_def)
  have "wei = map (\<lambda>qi. map (\<lambda>kj. dot qi kj * sc) (map (Linear_row (h_key h)) x))
                (map (Linear_row (h_query h)) x)"
    by (simp add: wei_def matmul_nt_def)
  also have "\<dots> = map (\<lambda>i. map (\<lambda>kj. dot (Linear_row (h_query h) (x ! i)) kj * sc)
                          (map (Linear_row (h_key h)) x)) [0..<T]"
    unfolding T_def by (subst map_nth_upt) simp
  also have "\<dots> = map (\<lambda>i. map (e i) [0..<T]) [0..<T]"
    unfolding T_def e_def by (subst map_nth_upt[of _ "map (Linear_row (h_key h)) x"]) simp
  finally have wei: "wei = map (\<lambda>i. map (e i) [0..<T]) [0..<T]" .
  have "masked_fill wei msk = Inr (map2 (map2 (\<lambda>v m. if m then MinusInf else Fin v)) wei msk)"
    by (rule masked_fill_square) (simp_all add: wei msk list_all_iff)
  also have "map2 (map2 (\<lambda>v m. if m then MinusInf else Fin v)) wei msk =
      map (\<lambda>i. map (\<lambda>j. if i < j then MinusInf else Fin (e i j)) [0..<T]) [0..<T]"
    unfolding wei msk by (simp add: map2_map_same not_le cong del: if_weak_cong)
  finally have mf: "masked_fill wei msk =
      Inr (map (\<lambda>i. map (\<lambda>j. if i < j then MinusInf else Fin (e i j)) [0..<T]) [0..<T])" .
  have "Head_weights h x = Inr (map softmax
      (map (\<lambda>i. map (\<lambda>j. if i < j then MinusInf else Fin (e i j)) [0..<T]) [0..<T]))"
    using hs mf
    by (simp add: Head_weights_def Let_def Linear_forward_Inr[OF kx] Linear_forward_Inr[OF qx]
        Dropout_forward_def wei_def[symmetric] msk_def[symmetric] T_def[symmetric] sc_def[symmetric]
        del: map_map)
  then show ?thesis
    unfolding e_def sc_def T_def by (simp only: map_map comp_def)
qed

section \<open>Normalisation without a bias\<close>

lemma map2_add_zeros: "length ys = n \<Longrightarrow> map2 (+) ys (replicate n (0::real)) = ys"
  by (induction ys arbitrary: n) auto

lemma layer_norm_row_length: "length w = length x \<Longrightarrow> length (layer_norm_row x w None eps) = length x"
  by (simp add: layer_norm_row_def Let_def)

lemma layer_norm_row_zero_bias:
  "length w = length x \<Longrightarrow>
   layer_norm_row x w (Some (replicate (length w) 0)) eps = layer_norm_row x w None eps"
  by (simp add: layer_norm_row_def Let_def map2_add_zeros)

text \<open>
  C7. A \<^verbatim>\<open>LayerNorm\<close> without a bias and a \<^verbatim>\<open>LayerNorm\<close> whose bias is the zero
  vector compute the same output (or raise the same exception) on every input, for every
  scale \<open>w\<close>.
\<close>

theorem LayerNorm_no_bias_eq_zero_bias:
  "LayerNorm_forward \<lparr>ln_weight = w, ln_bias = None\<rparr> x =
   LayerNorm_forward \<lparr>ln_weight = w, ln_bias = Some (replicate (length w) 0)\<rparr> x"
proof (cases "list_all (\<lambda>r. length r = length w) x")
  case True
  have "layer_norm_row r w (Some (replicate (length w) 0)) (1 / 100000) =
        layer_norm_row r w None (1 / 100000)" if "r \<in> set x" for r
  proof -
    from True that have "length w = length r"
      by (simp add: list_all_iff)
    then show ?thesis
      by (rule layer_norm_row_zero_bias)
  qed
  then have "map (\<lambda>r. layer_norm_row r w (Some (replicate (length w) 0)) (1 / 100000)) x =
             map (\<lambda>r. layer_norm_row r w None (1 / 100000)) x"
    by (intro map_cong refl)
  with True show ?thesis
    by (simp add: LayerNorm_forward_def layer_norm_def)
next
  case False
  then show ?thesis
    by (simp add: LayerNorm_forward_def layer_norm_def)
qed

section \<open>Composition of the three blocks\<close>

text \<open>
  C2. Each block computes its composition, for every input \<open>x\<close>. \<^verbatim>\<open>Block\<close> (variant A)
  returns \<open>y\<close> exactly when the sub-layers succeed with
  \<open>x' = x + Attention(Norm1(x))\<close> and \<open>y = x' + FeedForward(Norm2(x'))\<close>; \<^verbatim>\<open>BlockGPT1\<close>
  (variant B) exactly when \<open>x' = Norm1(Attention(x) + x)\<close> and
  \<open>y = Norm2(FeedForward(x') + x')\<close>; \<^verbatim>\<open>BlockGPT2\<close> (variant C) has the shape of variant A
  with the bias-optional \<^verbatim>\<open>LayerNorm\<close> and the GELU feed-forward network.
\<close>

theorem block_variants_compose:
  "(Block_forward b x = Inr y \<longleftrightarrow>
      (\<exists>n1 a n2 f. nn_LayerNorm_forward (b_ln1 b) x = Inr n1
         \<and> MultiHeadAttention_forward (b_sa b) n1 = Inr a
         \<and> nn_LayerNorm_forward (b_ln2 b) (tensor_add x a) = Inr n2
         \<and> FeedFoward_forward (b_ffwd b) n2 = Inr f
         \<and> y = tensor_add (tensor_add x a) f))
   \<and> (BlockGPT1_forward b1 x = Inr y \<longleftrightarrow>
      (\<exists>a x' f. MultiHeadAttention_forward (b1_multi_head b1) x = Inr a
         \<and> nn_LayerNorm_forward (b1_ln1 b1) (tensor_add a x) = Inr x'
         \<and> FeedFoward_forward (b1_ffwd b1) x' = Inr f
         \<and> nn_LayerNorm_forward (b1_ln2 b1) (tensor_add f x') = Inr y))
   \<and> (BlockGPT2_forward b2 x = Inr y \<longleftrightarrow>
      (\<exists>n1 a n2 f. LayerNorm_forward (b2_ln1 b2) x = Inr n1
         \<and> MultiHeadAttention_forward (b2_multi_head b2) n1 = Inr a
         \<and> LayerNorm_forward (b2_ln2 b2) (tensor_add x a) = Inr n2
         \<and> FeedFowardGPT2_forward (b2_ffwd b2) n2 = Inr f
         \<and> y = tensor_add (tensor_add x a) f))"
  unfolding Block_forward_def BlockGPT1_forward_def BlockGPT2_forward_def Let_def ebind_eq_Inr
  by (intro conjI; blast)

section \<open>The GPT2-style stack has no final normalisation\<close>



section \<open>The sampler\<close>







section \<open>Causal attention weights\<close>

text \<open>
  C1. Let the head hold the mask precomputed for the context window \<open>bsz\<close>, let the input
  have \<open>T \<le> bsz\<close> rows of the width the key and query projections expect, and let the head
  size be positive. Then \<^verbatim>\<open>Head.forward\<close> computes (in inference mode) a \<open>T \<times> T\<close> matrix of
  attention weights whose rows sum to 1, whose entries are non-negative, and whose entry
  \<open>(i, j)\<close> is 0 for every \<open>j > i\<close>: the mask is sliced to the active \<open>T \<times> T\<close> block.
\<close>

theorem Head_weights_causal:
  assumes "h_tril h = tril_ones bsz" and "length x \<le> bsz"
    and "list_all (\<lambda>r. length r = in_features (h_key h)) x"
    and "list_all (\<lambda>r. length r = in_features (h_query h)) x"
    and "0 < out_features (h_key h)"
  shows "\<exists>w. Head_weights h x = Inr w \<and> length w = length x
           \<and> (\<forall>i<length x. length (w ! i) = length x \<and> sum_list (w ! i) = 1
                \<and> (\<forall>j<length x. 0 \<le> w ! i ! j \<and> (i < j \<longrightarrow> w ! i ! j = 0)))"
proof -
  let ?sc = "\<lambda>i j. if i < j then MinusInf
            else Fin (dot (Linear_row (h_query h) (x ! i)) (Linear_row (h_key h) (x ! j))
                      * (1 / sqrt (real (out_features (h_key h)))))"
  let ?row = "\<lambda>i. map (?sc i) [0..<length x]"
  let ?w = "map (\<lambda>i. softmax (?row i)) [0..<length x]"
  have eq: "Head_weights h x = Inr ?w"
    using assms by (rule Head_weights_eq)
  have "length (?w ! i) = length x \<and> sum_list (?w ! i) = 1
          \<and> (\<forall>j<length x. 0 \<le> ?w ! i ! j \<and> (i < j \<longrightarrow> ?w ! i ! j = 0))" if i: "i < length x" for i
  proof -
    have wi: "?w ! i = softmax (?row i)"
      using i by (simp cong del: if_weak_cong)
    have "?row i ! i = Fin (dot (Linear_row (h_query h) (x ! i)) (Linear_row (h_key h) (x ! i))
                      * (1 / sqrt (real (out_features (h_key h)))))"
      using i by simp
    then have "Fin (dot (Linear_row (h_query h) (x ! i)) (Linear_row (h_key h) (x ! i))
                      * (1 / sqrt (real (out_features (h_key h))))) \<in> set (?row i)"
      using i by (metis (no_types, lifting) length_map length_upt minus_nat.diff_0 nth_mem)
    then have sum: "sum_list (softmax (?row i)) = 1"
      by (rule softmax_sum)
    have ent: "0 \<le> softmax (?row i) ! j \<and> (i < j \<longrightarrow> softmax (?row i) ! j = 0)" if "j < length x" for j
    proof -
      have "0 \<le> softmax (?row i) ! j"
        using that by (intro softmax_nonneg) simp
      moreover have "softmax (?row i) ! j = 0" if "i < j"
        using that \<open>j < length x\<close> by (intro softmax_masked) simp_all
      ultimately show ?thesis
        by blast
    qed
    from sum ent show ?thesis
      by (simp add: wi del: map_map)
  qed
  with eq show ?thesis
    by (intro exI[of _ ?w]) simp
qed

theorem Head_weights_causal_witness:
  "h_tril \<lparr>h_key = zero_Linear 2 2 False, h_query = zero_Linear 2 2 False,
            h_value = zero_Linear 2 2 False, h_tril = tril_ones 2, h_dropout = Dropout 0\<rparr>
     = tril_ones 2
   \<and> length [[1, 3 :: real]] \<le> 2
   \<and> list_all (\<lambda>r. length r = in_features (zero_Linear 2 2 False)) [[1, 3]]
   \<and> 0 < out_features (zero_Linear 2 2 False)
   \<and> (\<exists>w. Head_weights \<lparr>h_key = zero_Linear 2 2 False, h_query = zero_Linear 2 2 False,
            h_value = zero_Linear 2 2 False, h_tril = tril_ones 2, h_dropout = Dropout 0\<rparr>
          [[1, 3]] = Inr w \<and> length w = length [[1, 3 :: real]]
        \<and> (\<forall>i<length [[1, 3 :: real]]. length (w ! i) = length [[1, 3 :: real]]
              \<and> sum_list (w ! i) = 1
              \<and> (\<forall>j<length [[1, 3 :: real]]. 0 \<le> w ! i ! j \<and> (i < j \<longrightarrow> w ! i ! j = 0))))"
proof -
  let ?h = "\<lparr>h_key = zero_Linear 2 2 False, h_query = zero_Linear 2 2 False,
            h_value = zero_Linear 2 2 False, h_tril = tril_ones 2, h_dropout = Dropout 0\<rparr>"
  have a: "h_tril ?h = tril_ones 2"
    by simp
  have b: "length [[1, 3 :: real]] \<le> 2"
    by simp
  have c: "list_all (\<lambda>r. length r = in_features (zero_Linear 2 2 False)) [[1, 3]]"
    by (simp add: zero_Linear_def)
  have d: "0 < out_features (zero_Linear 2 2 False)"
    by (simp add: zero_Linear_def)
  have "\<exists>w. Head_weights ?h [[1, 3]] = Inr w \<and> length w = length [[1, 3 :: real]]
        \<and> (\<forall>i<length [[1, 3 :: real]]. length (w ! i) = length [[1, 3 :: real]]
              \<and> sum_list (w ! i) = 1
              \<and> (\<forall>j<length [[1, 3 :: real]]. 0 \<le> w ! i ! j \<and> (i < j \<longrightarrow> w ! i ! j = 0)))"
    using a b c d by (intro Head_weights_causal[where bsz = 2]) simp_all
  with a b c d show ?thesis
    by blast
qed

section \<open>Construction does not check divisibility\<close>

text \<open>
  C3, as stated, fails: with embedding width 10 and 3 heads every block, and the
  multi-head attention layer with the head size \<open>10 // 3\<close> the blocks compute, is
  constructed without an exception.
\<close>

theorem block_construction_counterexample:
  "\<not> isl (Block_init 10 3 4 0 (\<lambda>k. 0)) \<and> \<not> isl (BlockGPT1_init 10 3 4 0 (\<lambda>k. 0))
   \<and> \<not> isl (BlockGPT2_init 10 3 4 True 0 (\<lambda>k. 0))
   \<and> \<not> isl (MultiHeadAttention_init 3 (10 div 3) 10 4 0 (\<lambda>k. 0))
   \<and> \<not> (3::int) dvd 10"
  by (simp add: raises_iffD[OF raises_iff_Block_init] raises_iffD[OF raises_iff_BlockGPT1_init]
      raises_iffD[OF raises_iff_BlockGPT2_init] raises_iffD[OF raises_iff_MultiHeadAttention_init])

text \<open>
  C3, amended. Construction makes no divisibility check. A block raises at construction
  exactly when the head count is 0 (\<^verbatim>\<open>ZeroDivisionError\<close> of \<^verbatim>\<open>n_embd // n_head\<close>), the
  embedding width is negative, the dropout rate is outside \<open>[0, 1]\<close>, or heads are built
  with a negative context window. When the head count does not divide the embedding
  width, the constructed block raises in its forward pass on every non-empty input: the
  concatenated heads do not have the width the output projection expects.
\<close>

theorem block_construction_checks:
  "(isl (Block_init ne H bsz p g) \<longleftrightarrow> H = 0 \<or> ne < 0 \<or> p < 0 \<or> 1 < p \<or> (0 < H \<and> bsz < 0))
   \<and> (isl (BlockGPT1_init ne H bsz p g) \<longleftrightarrow> H = 0 \<or> ne < 0 \<or> p < 0 \<or> 1 < p \<or> (0 < H \<and> bsz < 0))
   \<and> (isl (BlockGPT2_init ne H bsz wb p g) \<longleftrightarrow>
        H = 0 \<or> ne < 0 \<or> p < 0 \<or> 1 < p \<or> (0 < H \<and> bsz < 0))
   \<and> (isl (MultiHeadAttention_init H hs ne bsz p g) \<longleftrightarrow>
        ne < 0 \<or> p < 0 \<or> 1 < p \<or> (0 < H \<and> (hs < 0 \<or> bsz < 0)))
   \<and> Block_init ne 0 bsz p g = Inl ZeroDivisionError
   \<and> BlockGPT1_init ne 0 bsz p g = Inl ZeroDivisionError
   \<and> BlockGPT2_init ne 0 bsz wb p g = Inl ZeroDivisionError
   \<and> (Block_init ne H bsz p g = Inr (b, g') \<and> \<not> H dvd ne \<and> x \<noteq> [] \<longrightarrow> isl (Block_forward b x))
   \<and> (BlockGPT1_init ne H bsz p g = Inr (b1, g1) \<and> \<not> H dvd ne \<and> x \<noteq> [] \<longrightarrow>
        isl (BlockGPT1_forward b1 x))
   \<and> (BlockGPT2_init ne H bsz wb p g = Inr (b2, g2) \<and> \<not> H dvd ne \<and> x \<noteq> [] \<longrightarrow>
        isl (BlockGPT2_forward b2 x))
   \<and> (MultiHeadAttention_init H hs ne bsz p g = Inr (m, g3) \<and> H * hs \<noteq> ne \<and> x \<noteq> [] \<longrightarrow>
        isl (MultiHeadAttention_forward m x))"
proof (intro conjI impI)
  show "isl (Block_init ne H bsz p g) \<longleftrightarrow> H = 0 \<or> ne < 0 \<or> p < 0 \<or> 1 < p \<or> (0 < H \<and> bsz < 0)"
    by (rule raises_iffD[OF raises_iff_Block_init])
  show "isl (BlockGPT1_init ne H bsz p g) \<longleftrightarrow> H = 0 \<or> ne < 0 \<or> p < 0 \<or> 1 < p \<or> (0 < H \<and> bsz < 0)"
    by (rule raises_iffD[OF raises_iff_BlockGPT1_init])
  show "isl (BlockGPT2_init ne H bsz wb p g) \<longleftrightarrow>
        H = 0 \<or> ne < 0 \<or> p < 0 \<or> 1 < p \<or> (0 < H \<and> bsz < 0)"
    by (rule raises_iffD[OF raises_iff_BlockGPT2_init])
  show "isl (MultiHeadAttention_init H hs ne bsz p g) \<longleftrightarrow>
        ne < 0 \<or> p < 0 \<or> 1 < p \<or> (0 < H \<and> (hs < 0 \<or> bsz < 0))"
    by (rule raises_iffD[OF raises_iff_MultiHeadAttention_init])
  show "Block_init ne 0 bsz p g = Inl ZeroDivisionError"
    by (simp add: Block_init_def craise_def)
  show "BlockGPT1_init ne 0 bsz p g = Inl ZeroDivisionError"
    by (simp add: BlockGPT1_init_def craise_def)
  show "BlockGPT2_init ne 0 bsz wb p g = Inl ZeroDivisionError"
    by (simp add: BlockGPT2_init_def craise_def)
next
  assume "Block_init ne H bsz p g = Inr (b, g') \<and> \<not> H dvd ne \<and> x \<noteq> []"
  then show "isl (Block_forward b x)"
    by (blast intro: Block_init_forward_mismatch)
next
  assume "BlockGPT1_init ne H bsz p g = Inr (b1, g1) \<and> \<not> H dvd ne \<and> x \<noteq> []"
  then show "isl (BlockGPT1_forward b1 x)"
    by (blast intro: BlockGPT1_init_forward_mismatch)
next
  assume "BlockGPT2_init ne H bsz wb p g = Inr (b2, g2) \<and> \<not> H dvd ne \<and> x \<noteq> []"
  then show "isl (BlockGPT2_forward b2 x)"
    by (blast intro: BlockGPT2_init_forward_mismatch)
next
  assume "MultiHeadAttention_init H hs ne bsz p g = Inr (m, g3) \<and> H * hs \<noteq> ne \<and> x \<noteq> []"
  then show "isl (MultiHeadAttention_forward m x)"
    by (blast intro: MultiHeadAttention_init_mismatch)
qed

theorem block_construction_checks_witness:
  "(\<exists>b g'. Block_init 10 3 4 0 (\<lambda>k. 0) = Inr (b, g') \<and> \<not> (3::int) dvd 10
       \<and> [replicate 10 (0::real)] \<noteq> [] \<and> isl (Block_forward b [replicate 10 0]))
   \<and> (\<exists>b g'. BlockGPT1_init 10 3 4 0 (\<lambda>k. 0) = Inr (b, g') \<and> \<not> (3::int) dvd 10
       \<and> [replicate 10 (0::real)] \<noteq> [] \<and> isl (BlockGPT1_forward b [replicate 10 0]))
   \<and> (\<exists>b g'. BlockGPT2_init 10 3 4 True 0 (\<lambda>k. 0) = Inr (b, g') \<and> \<not> (3::int) dvd 10
       \<and> [replicate 10 (0::real)] \<noteq> [] \<and> isl (BlockGPT2_forward b [replicate 10 0]))
   \<and> (\<exists>m g'. MultiHeadAttention_init 3 3 10 4 0 (\<lambda>k. 0) = Inr (m, g') \<and> (3::int) * 3 \<noteq> 10
       \<and> [replicate 10 (0::real)] \<noteq> [] \<and> isl (MultiHeadAttention_forward m [replicate 10 0]))"
proof -
  note t = block_construction_checks[where ne = 10 and H = 3 and bsz = 4 and p = 0 and hs = 3
      and wb = True and g = "\<lambda>k. 0" and x = "[replicate 10 0]"]
  have nd: "\<not> (3::int) dvd 10" "(3::int) * 3 \<noteq> 10" "[replicate 10 (0::real)] \<noteq> []"
    by simp_all
  from t have "\<not> isl (Block_init 10 3 4 0 (\<lambda>k. 0))"
    by simp
  then obtain b g' where b: "Block_init 10 3 4 0 (\<lambda>k. 0) = Inr (b, g')"
    by (auto simp: not_isl_ex)
  from t have "\<not> isl (BlockGPT1_init 10 3 4 0 (\<lambda>k. 0))"
    by simp
  then obtain b1 g1 where b1: "BlockGPT1_init 10 3 4 0 (\<lambda>k. 0) = Inr (b1, g1)"
    by (auto simp: not_isl_ex)
  from t have "\<not> isl (BlockGPT2_init 10 3 4 True 0 (\<lambda>k. 0))"
    by simp
  then obtain b2 g2 where b2: "BlockGPT2_init 10 3 4 True 0 (\<lambda>k. 0) = Inr (b2, g2)"
    by (auto simp: not_isl_ex)
  from t have "\<not> isl (MultiHeadAttention_init 3 3 10 4 0 (\<lambda>k. 0))"
    by simp
  then obtain m g3 where m: "MultiHeadAttention_init 3 3 10 4 0 (\<lambda>k. 0) = Inr (m, g3)"
    by (auto simp: not_isl_ex)
  note u = block_construction_checks[where ne = 10 and H = 3 and bsz = 4 and p = 0 and hs = 3
      and wb = True and g = "\<lambda>k. 0" and x = "[replicate 10 0]" and b = b and g' = g'
      and ?b1.0 = b1 and ?g1.0 = g1 and ?b2.0 = b2 and ?g2.0 = g2 and m = m and ?g3.0 = g3]
  from u b nd have "isl (Block_forward b [replicate 10 0])"
    by blast
  moreover from u b1 nd have "isl (BlockGPT1_forward b1 [replicate 10 0])"
    by blast
  moreover from u b2 nd have "isl (BlockGPT2_forward b2 [replicate 10 0])"
    by blast
  moreover from u m nd have "isl (MultiHeadAttention_forward m [replicate 10 0])"
    by blast
  ultimately show ?thesis
    using b b1 b2 m nd by blast
qed

section \<open>The unused final normalisation of \<^verbatim>\<open>simpleGPT\<close>\<close>

text \<open>
  C10. \<^verbatim>\<open>simpleGPT\<close> constructs the normalisation \<^verbatim>\<open>ln_f\<close> (weight ones, bias zeros, of
  the embedding width) and its forward pass never reads it: the output is the same for
  any two settings of \<^verbatim>\<open>ln_f\<close>, and it is the projection of the output of the blocks on
  the sum of the token and position embeddings.
\<close>

theorem simpleGPT_never_applies_ln_f:
  "(simpleGPT_init v ne H bsz nl p g = Inr (m0, g') \<longrightarrow>
      sg_ln_f m0 = \<lparr>nln_weight = replicate (nat ne) 1, nln_bias = replicate (nat ne) 0\<rparr>)
   \<and> simpleGPT_forward (m\<lparr>sg_ln_f := n1\<rparr>) idx = simpleGPT_forward (m\<lparr>sg_ln_f := n2\<rparr>) idx
   \<and> (simpleGPT_forward m idx = Inr logits \<longleftrightarrow>
        (\<exists>tok pos x. Embedding_forward (sg_token_embedding_table m) idx = Inr tok
           \<and> Embedding_forward (sg_position_embedding_table m) (arange (length idx)) = Inr pos
           \<and> Sequential_forward Block_forward (sg_blocks m) (tensor_add tok pos) = Inr x
           \<and> Linear_forward (sg_lm_head m) x = Inr logits))"
proof (intro conjI impI)
  assume "simpleGPT_init v ne H bsz nl p g = Inr (m0, g')"
  then show "sg_ln_f m0 = \<lparr>nln_weight = replicate (nat ne) 1, nln_bias = replicate (nat ne) 0\<rparr>"
    by (rule simpleGPT_init_ln_f)
next
  show "simpleGPT_forward (m\<lparr>sg_ln_f := n1\<rparr>) idx = simpleGPT_forward (m\<lparr>sg_ln_f := n2\<rparr>) idx"
    by (simp add: simpleGPT_forward_def)
next
  show "simpleGPT_forward m idx = Inr logits \<longleftrightarrow>
        (\<exists>tok pos x. Embedding_forward (sg_token_embedding_table m) idx = Inr tok
           \<and> Embedding_forward (sg_position_embedding_table m) (arange (length idx)) = Inr pos
           \<and> Sequential_forward Block_forward (sg_blocks m) (tensor_add tok pos) = Inr x
           \<and> Linear_forward (sg_lm_head m) x = Inr logits)"
    unfolding simpleGPT_forward_def Let_def ebind_eq_Inr by blast
qed

theorem simpleGPT_never_applies_ln_f_witness:
  "\<exists>m0 g'. simpleGPT_init 10 8 2 4 1 0 (\<lambda>k. 0) = Inr (m0, g')
     \<and> sg_ln_f m0 = \<lparr>nln_weight = replicate (nat 8) 1, nln_bias = replicate (nat 8) 0\<rparr>"
proof -
  have "\<not> isl (simpleGPT_init 10 8 2 4 1 0 (\<lambda>k. 0))"
    by (simp add: raises_iffD[OF raises_iff_simpleGPT_init])
  then obtain m0 g' where init: "simpleGPT_init 10 8 2 4 1 0 (\<lambda>k. 0) = Inr (m0, g')"
    by (auto simp: not_isl_ex)
  from simpleGPT_never_applies_ln_f[THEN conjunct1, rule_format, OF init] init
  show ?thesis
    by blast
qed

end
